theory Spec2Isabelle
  imports Complex_Main
begin

section \<open>Python values and the exceptions of the operations used on them\<close>

text \<open>
  The streaming-service client hands back parsed JSON, which the source treats as
  loosely typed nested dicts and lists. A value is therefore one of the six JSON shapes.
  Numbers are exact rationals: a decimal literal of the source (\<open>0.7\<close>) is the
  rational it denotes (\<open>7/10\<close>), and comparison is the exact order. A dict is an
  association list in insertion order; a lookup takes the first binding of a key.
\<close>

datatype pyval =
    PNone
  | PBool bool
  | PNum rat
  | PStr string
  | PList "pyval list"
  | PDict "(string \<times> pyval) list"

text \<open>
  Every member of \<open>exn\<close> stands for an instance of Python's \<open>Exception\<close>, so a bare
  \<open>except:\<close> and \<open>except Exception\<close> catch each of them. \<open>ServiceError\<close> is any
  failure raised by the service client (authentication, network, HTTP status), with
  its text.
\<close>

datatype exn =
    KeyError
  | TypeError
  | AttributeError
  | IndexError
  | NameError
  | ServiceError string

text \<open>Sequencing of fallible pure steps: the first exception ends the computation.\<close>

definition thenE :: "exn + 'a \<Rightarrow> ('a \<Rightarrow> exn + 'b) \<Rightarrow> exn + 'b" where
  "thenE m f = (case m of Inl e \<Rightarrow> Inl e | Inr x \<Rightarrow> f x)"

text \<open>Truth value of an object, as \<open>if x\<close> and \<open>not x\<close> test it.\<close>

fun truthy :: "pyval \<Rightarrow> bool" where
  "truthy PNone = False"
| "truthy (PBool b) = b"
| "truthy (PNum x) = (x \<noteq> 0)"
| "truthy (PStr s) = (s \<noteq> [])"
| "truthy (PList xs) = (xs \<noteq> [])"
| "truthy (PDict kvs) = (kvs \<noteq> [])"

text \<open>\<open>x.get(k, d)\<close>: only a dict has the method.\<close>

fun py_get :: "pyval \<Rightarrow> string \<Rightarrow> pyval \<Rightarrow> exn + pyval" where
  "py_get (PDict kvs) k d = Inr (case map_of kvs k of Some v \<Rightarrow> v | None \<Rightarrow> d)"
| "py_get PNone k d = Inl AttributeError"
| "py_get (PBool b) k d = Inl AttributeError"
| "py_get (PNum x) k d = Inl AttributeError"
| "py_get (PStr s) k d = Inl AttributeError"
| "py_get (PList xs) k d = Inl AttributeError"

text \<open>\<open>x[k]\<close> with a string key \<open>k\<close>: a missing key of a dict is a KeyError, and no
  other shape can be subscripted by a string.\<close>

fun py_item :: "pyval \<Rightarrow> string \<Rightarrow> exn + pyval" where
  "py_item (PDict kvs) k = (case map_of kvs k of Some v \<Rightarrow> Inr v | None \<Rightarrow> Inl KeyError)"
| "py_item PNone k = Inl TypeError"
| "py_item (PBool b) k = Inl TypeError"
| "py_item (PNum x) k = Inl TypeError"
| "py_item (PStr s) k = Inl TypeError"
| "py_item (PList xs) k = Inl TypeError"

text \<open>\<open>x[0]\<close>: the first element of a list, the first character of a string; a dict
  with string keys has no key \<open>0\<close>.\<close>

fun py_first :: "pyval \<Rightarrow> exn + pyval" where
  "py_first (PList xs) = (case xs of [] \<Rightarrow> Inl IndexError | x # _ \<Rightarrow> Inr x)"
| "py_first (PStr s) = (case s of [] \<Rightarrow> Inl IndexError | c # _ \<Rightarrow> Inr (PStr [c]))"
| "py_first (PDict kvs) = Inl KeyError"
| "py_first PNone = Inl TypeError"
| "py_first (PBool b) = Inl TypeError"
| "py_first (PNum x) = Inl TypeError"

text \<open>The elements a \<open>for\<close> loop, a comprehension or \<open>zip\<close> draws from an object: a
  dict yields its keys, a string its characters.\<close>

fun py_iter :: "pyval \<Rightarrow> exn + pyval list" where
  "py_iter (PList xs) = Inr xs"
| "py_iter (PDict kvs) = Inr (map (\<lambda>kv. PStr (fst kv)) kvs)"
| "py_iter (PStr s) = Inr (map (\<lambda>c. PStr [c]) s)"
| "py_iter PNone = Inl TypeError"
| "py_iter (PBool b) = Inl TypeError"
| "py_iter (PNum x) = Inl TypeError"

fun starts_with :: "string \<Rightarrow> string \<Rightarrow> bool" where
  "starts_with [] s = True"
| "starts_with (c # k) [] = False"
| "starts_with (c # k) (d # s) = (c = d \<and> starts_with k s)"

fun substring :: "string \<Rightarrow> string \<Rightarrow> bool" where
  "substring k [] = (k = [])"
| "substring k (c # s) = (starts_with k (c # s) \<or> substring k s)"

text \<open>\<open>k in x\<close> for a string \<open>k\<close>: a key of a dict, an element of a list, a substring
  of a string.\<close>

fun py_contains :: "pyval \<Rightarrow> string \<Rightarrow> exn + bool" where
  "py_contains (PDict kvs) k = Inr (k \<in> set (map fst kvs))"
| "py_contains (PList xs) k = Inr (PStr k \<in> set xs)"
| "py_contains (PStr s) k = Inr (substring k s)"
| "py_contains PNone k = Inl TypeError"
| "py_contains (PBool b) k = Inl TypeError"
| "py_contains (PNum x) k = Inl TypeError"

text \<open>The number an object stands for in an order comparison with a number: \<open>bool\<close>
  is a subclass of \<open>int\<close>; every other shape raises.\<close>

fun py_num :: "pyval \<Rightarrow> exn + rat" where
  "py_num (PNum x) = Inr x"
| "py_num (PBool b) = Inr (if b then 1 else 0)"
| "py_num PNone = Inl TypeError"
| "py_num (PStr s) = Inl TypeError"
| "py_num (PList xs) = Inl TypeError"
| "py_num (PDict kvs) = Inl TypeError"

section \<open>The emotion tables of \<open>SpotifyPlayer\<close>\<close>

type_synonym targets = "(string \<times> rat \<times> rat) list"

definition EMOTION_GENRES :: "(string \<times> string list) list" where
  "EMOTION_GENRES =
     [(''happy'', [''pop'', ''dance'', ''latin'']),
      (''sad'', [''acoustic'', ''classical'', ''blues'']),
      (''angry'', [''rock'', ''metal'', ''punk'']),
      (''surprise'', [''electronic'', ''house'', ''edm'']),
      (''disgust'', [''soul'', ''r&b'', ''blues'']),
      (''fear'', [''ambient'', ''soundtracks'', ''darkwave'']),
      (''neutral'', [''indie'', ''chill'', ''lofi''])]"

definition EMOTION_TARGETS :: "(string \<times> targets) list" where
  "EMOTION_TARGETS =
     [(''happy'', [(''valence'', 7/10, 1), (''energy'', 6/10, 1), (''danceability'', 5/10, 1)]),
      (''sad'', [(''valence'', 0, 3/10), (''energy'', 0, 3/10), (''acousticness'', 4/10, 1)]),
      (''angry'', [(''valence'', 1/10, 4/10), (''energy'', 6/10, 1), (''tempo'', 90, 150)]),
      (''surprise'', [(''valence'', 5/10, 8/10), (''energy'', 6/10, 9/10),
                      (''danceability'', 5/10, 8/10)]),
      (''disgust'', [(''valence'', 2/10, 5/10), (''energy'', 3/10, 6/10),
                     (''acousticness'', 4/10, 7/10)]),
      (''fear'', [(''valence'', 0, 4/10), (''energy'', 2/10, 5/10),
                  (''instrumentalness'', 3/10, 1)]),
      (''neutral'', [(''valence'', 4/10, 6/10), (''energy'', 4/10, 6/10)])]"

text \<open>\<open>d.get(k, default)\<close> on a table of the class.\<close>

definition dict_get :: "(string \<times> 'a) list \<Rightarrow> string \<Rightarrow> 'a \<Rightarrow> 'a" where
  "dict_get d k dflt = (case map_of d k of Some v \<Rightarrow> v | None \<Rightarrow> dflt)"


text \<open>\<open>_convert_targets\<close>: the midpoint of every interval, under the key
  \<open>target_<feature>\<close>.\<close>

definition convert_targets :: "string \<Rightarrow> (string \<times> rat) list" where
  "convert_targets emotion =
     (let raw = dict_get EMOTION_TARGETS emotion []
      in map (\<lambda>(k, low, high). (''target_'' @ k, (low + high) / 2)) raw)"

section \<open>Feature matching\<close>

text \<open>
  \<open>_match_features(feat, target)\<close>: the loop over \<open>target.items()\<close>. A key that is
  not in \<open>feat\<close> is skipped; the first value outside its interval returns \<open>False\<close>.
  The chained comparison \<open>low <= feat[key] <= high\<close> reads \<open>feat[key]\<close> once.
\<close>

fun match_features :: "pyval \<Rightarrow> targets \<Rightarrow> exn + bool" where
  "match_features feat [] = Inr True"
| "match_features feat ((key, low, high) # rest) =
     thenE (py_contains feat key) (\<lambda>present.
       if \<not> present then match_features feat rest
       else thenE (py_item feat key) (\<lambda>v.
            thenE (py_num v) (\<lambda>x.
              if \<not> (low \<le> x \<and> x \<le> high) then Inr False
              else match_features feat rest)))"

section \<open>The service client, the console and the state of a run\<close>

text \<open>
  A call of a method of the client \<open>self.sp\<close>, with the arguments the source passes.
  \<open>Recommendations\<close> carries \<open>seed_genres\<close>, \<open>seed_artists\<close>, \<open>seed_tracks\<close>
  (\<open>None\<close> where the source passes \<open>None\<close> or leaves the argument out), \<open>limit\<close>
  and the \<open>target_*\<close> keywords; \<open>Search\<close> carries \<open>q\<close>, \<open>type\<close> and \<open>limit\<close>;
  \<open>StartPlayback\<close> carries \<open>device_id\<close> and \<open>uris\<close>.
\<close>

datatype call =
    Devices
  | TransferPlayback pyval
  | StartPlayback pyval "pyval list"
  | CurrentUserTopArtists int
  | CurrentUserTopTracks int
  | Recommendations "string list" "pyval list option" "pyval list option" int "(string \<times> rat) list"
  | CurrentUserPlaylists
  | PlaylistTracks pyval int
  | AudioFeatures "pyval list"
  | Search string string int
  | PausePlayback
  | NextTrack

text \<open>
  The lines the player prints. \<open>NowPlaying\<close> carries \<open>emotion.upper()\<close> and
  \<open>len(queue)\<close>, \<open>PlaybackFailed\<close> the exception printed.
\<close>

datatype msg =
    LayerOne
  | LayerTwo
  | LayerThree
  | NoActiveDevice
  | NoTracksFound
  | NowPlaying string nat
  | PlaybackFailed exn

text \<open>
  The world outside the player: what the service answers to a call, which may depend on
  every call made before it, and the numbers drawn by \<open>random.choice\<close>.
\<close>

record world =
  respond :: "call list \<Rightarrow> call \<Rightarrow> exn + pyval"
  pick :: "nat \<Rightarrow> nat"

record state =
  calls :: "call list"
  printed :: "msg list"
  draws :: nat

type_synonym 'a comp = "state \<Rightarrow> (exn + 'a) \<times> state"

definition retC :: "'a \<Rightarrow> 'a comp" where
  "retC x s = (Inr x, s)"

definition liftE :: "exn + 'a \<Rightarrow> 'a comp" where
  "liftE r s = (r, s)"

definition bindC :: "'a comp \<Rightarrow> ('a \<Rightarrow> 'b comp) \<Rightarrow> 'b comp" where
  "bindC m f s = (case m s of (Inl e, s') \<Rightarrow> (Inl e, s') | (Inr x, s') \<Rightarrow> f x s')"

text \<open>\<open>try: m  except: h\<close>. The handler runs in the state the body left behind.\<close>

definition tryC :: "'a comp \<Rightarrow> (exn \<Rightarrow> 'a comp) \<Rightarrow> 'a comp" where
  "tryC m h s = (case m s of (Inl e, s') \<Rightarrow> h e s' | (Inr x, s') \<Rightarrow> (Inr x, s'))"

definition service :: "world \<Rightarrow> call \<Rightarrow> pyval comp" where
  "service w c s = (respond w (calls s) c, s\<lparr>calls := calls s @ [c]\<rparr>)"

definition py_print :: "msg \<Rightarrow> unit comp" where
  "py_print m s = (Inr (), s\<lparr>printed := printed s @ [m]\<rparr>)"

text \<open>\<open>random.choice(xs)\<close>: an element at a drawn index; an empty sequence raises.\<close>

definition random_choice :: "world \<Rightarrow> 'a list \<Rightarrow> 'a comp" where
  "random_choice w xs s =
     (if xs = [] then (Inl IndexError, s)
      else (Inr (xs ! (pick w (draws s) mod length xs)), s\<lparr>draws := Suc (draws s)\<rparr>))"

section \<open>Device handling\<close>

text \<open>\<open>next((d for d in devices if d["is_active"]), None)\<close>: the generator stops at the
  first device whose flag is true, and raises where a flag cannot be read before that.\<close>

fun next_active :: "pyval list \<Rightarrow> exn + pyval" where
  "next_active [] = Inr PNone"
| "next_active (d # ds) =
     thenE (py_item d ''is_active'') (\<lambda>a. if truthy a then Inr d else next_active ds)"

definition get_active_device :: "world \<Rightarrow> pyval comp" where
  "get_active_device w =
     tryC
       (bindC (service w Devices) (\<lambda>r.
        bindC (liftE (py_get r ''devices'' (PList []))) (\<lambda>devices.
        if \<not> truthy devices then retC PNone
        else
        bindC (liftE (thenE (py_iter devices) next_active)) (\<lambda>active.
        if truthy active then liftE (py_item active ''id'')
        else liftE (thenE (py_first devices) (\<lambda>d. py_item d ''id''))))))
       (\<lambda>e. retC PNone)"

definition ensure_device :: "world \<Rightarrow> pyval comp" where
  "ensure_device w =
     bindC (get_active_device w) (\<lambda>device.
     bindC (if truthy device
            then tryC (bindC (service w (TransferPlayback device)) (\<lambda>r. retC ()))
                      (\<lambda>e. retC ())
            else retC ()) (\<lambda>u.
     retC device))"

section \<open>The three recommendation layers\<close>

text \<open>\<open>[t["uri"] for t in xs]\<close>.\<close>

fun uris_loop :: "pyval list \<Rightarrow> exn + pyval list" where
  "uris_loop [] = Inr []"
| "uris_loop (t # ts) =
     thenE (py_item t ''uri'') (\<lambda>u. thenE (uris_loop ts) (\<lambda>us. Inr (u # us)))"

definition uris_of :: "pyval \<Rightarrow> exn + pyval list" where
  "uris_of xs = thenE (py_iter xs) uris_loop"

text \<open>\<open>xs[0]["id"] if xs else None\<close>.\<close>

definition first_id :: "pyval \<Rightarrow> exn + pyval" where
  "first_id xs =
     (if truthy xs then thenE (py_first xs) (\<lambda>x. py_item x ''id'') else Inr PNone)"

definition layer_user_recommendations :: "world \<Rightarrow> string \<Rightarrow> pyval list comp" where
  "layer_user_recommendations w emotion =
     bindC (py_print LayerOne) (\<lambda>u.
     tryC
       (bindC (service w (CurrentUserTopArtists 5)) (\<lambda>r1.
        bindC (liftE (py_get r1 ''items'' (PList []))) (\<lambda>top_artists.
        bindC (service w (CurrentUserTopTracks 5)) (\<lambda>r2.
        bindC (liftE (py_get r2 ''items'' (PList []))) (\<lambda>top_tracks.
        bindC (liftE (first_id top_artists)) (\<lambda>seed_artist.
        bindC (liftE (first_id top_tracks)) (\<lambda>seed_track.
        bindC (random_choice w (dict_get EMOTION_GENRES emotion [''pop''])) (\<lambda>seed_genre.
        bindC (service w (Recommendations [seed_genre]
                 (if truthy seed_artist then Some [seed_artist] else None)
                 (if truthy seed_track then Some [seed_track] else None)
                 40 (convert_targets emotion))) (\<lambda>rec.
        bindC (liftE (py_get rec ''tracks'' (PList []))) (\<lambda>tracks.
        liftE (uris_of tracks)))))))))))
       (\<lambda>e. retC []))"

text \<open>\<open>[t["track"]["id"] for t in items if t["track"]]\<close>.\<close>

fun track_ids_loop :: "pyval list \<Rightarrow> exn + pyval list" where
  "track_ids_loop [] = Inr []"
| "track_ids_loop (t # ts) =
     thenE (py_item t ''track'') (\<lambda>tr.
       if truthy tr
       then thenE (py_item tr ''id'') (\<lambda>i. thenE (track_ids_loop ts) (\<lambda>ids. Inr (i # ids)))
       else track_ids_loop ts)"

text \<open>The inner loop of Layer 2 over \<open>zip(features, items)\<close>, with \<open>matched\<close> as
  accumulator: \<open>if feat and self._match_features(feat, target)\<close> appends
  \<open>item["track"]["uri"]\<close>.\<close>

fun match_loop :: "targets \<Rightarrow> (pyval \<times> pyval) list \<Rightarrow> pyval list \<Rightarrow> exn + pyval list" where
  "match_loop target [] matched = Inr matched"
| "match_loop target ((feat, item) # rest) matched =
     (if truthy feat
      then thenE (match_features feat target) (\<lambda>ok.
             if ok
             then thenE (py_item item ''track'') (\<lambda>tr.
                  thenE (py_item tr ''uri'') (\<lambda>u. match_loop target rest (matched @ [u])))
             else match_loop target rest matched)
      else match_loop target rest matched)"

text \<open>The loop of Layer 2 over the playlists.\<close>

fun playlists_loop :: "world \<Rightarrow> targets \<Rightarrow> pyval list \<Rightarrow> pyval list \<Rightarrow> pyval list comp" where
  "playlists_loop w target [] matched = retC matched"
| "playlists_loop w target (pl # pls) matched =
     bindC (liftE (py_item pl ''id'')) (\<lambda>pid.
     bindC (service w (PlaylistTracks pid 50)) (\<lambda>r.
     bindC (liftE (py_get r ''items'' (PList []))) (\<lambda>items.
     bindC (liftE (thenE (py_iter items) track_ids_loop)) (\<lambda>track_ids.
     if track_ids = [] then playlists_loop w target pls matched
     else
     bindC (service w (AudioFeatures track_ids)) (\<lambda>features.
     bindC (liftE (thenE (py_iter features) (\<lambda>fs.
                   thenE (py_iter items) (\<lambda>its.
                   match_loop target (zip fs its) matched)))) (\<lambda>matched'.
     playlists_loop w target pls matched'))))))"

definition layer_playlist_matches :: "world \<Rightarrow> string \<Rightarrow> pyval list comp" where
  "layer_playlist_matches w emotion =
     bindC (py_print LayerTwo) (\<lambda>u.
     tryC
       (bindC (service w CurrentUserPlaylists) (\<lambda>r.
        bindC (liftE (py_get r ''items'' (PList []))) (\<lambda>playlists.
        bindC (liftE (py_iter playlists)) (\<lambda>pls.
        playlists_loop w (dict_get EMOTION_TARGETS emotion []) pls []))))
       (\<lambda>e. retC []))"

text \<open>
  Layer 3. The first \<open>try\<close> block binds \<open>seed\<close> in its first statement and its handler
  is \<open>pass\<close>, so the block leaves the binding of \<open>seed\<close> (if it got that far) and either
  the list it returns or nothing. The second block reads \<open>seed\<close>; an unbound name is
  a NameError inside that block.
\<close>

definition global_attempt :: "world \<Rightarrow> string \<Rightarrow> (string option \<times> pyval list option) comp" where
  "global_attempt w emotion =
     bindC (tryC (bindC (random_choice w (dict_get EMOTION_GENRES emotion [''pop'']))
                    (\<lambda>seed. retC (Some seed)))
                 (\<lambda>e. retC None)) (\<lambda>seed.
     case seed of
       None \<Rightarrow> retC (None, None)
     | Some sd \<Rightarrow>
         tryC
           (bindC (service w (Recommendations [sd] None None 50 (convert_targets emotion))) (\<lambda>rec.
            bindC (liftE (py_get rec ''tracks'' (PList []))) (\<lambda>tracks.
            if truthy tracks
            then bindC (liftE (uris_of tracks)) (\<lambda>us. retC (Some sd, Some us))
            else retC (Some sd, None))))
           (\<lambda>e. retC (Some sd, None)))"

definition global_search :: "world \<Rightarrow> string option \<Rightarrow> pyval list comp" where
  "global_search w seed =
     tryC
       (bindC (liftE (case seed of None \<Rightarrow> Inl NameError | Some sd \<Rightarrow> Inr sd)) (\<lambda>sd.
        bindC (service w (Search (''genre:'' @ sd) ''track'' 30)) (\<lambda>result.
        liftE (thenE (py_item result ''tracks'') (\<lambda>tr.
               thenE (py_item tr ''items'') uris_of)))))
       (\<lambda>e. retC [])"

definition layer_global_recommendations :: "world \<Rightarrow> string \<Rightarrow> pyval list comp" where
  "layer_global_recommendations w emotion =
     bindC (py_print LayerThree) (\<lambda>u.
     bindC (global_attempt w emotion) (\<lambda>(seed, returned).
     case returned of
       Some us \<Rightarrow> retC us
     | None \<Rightarrow> global_search w seed))"

section \<open>Playback for an emotion\<close>

definition ascii_upper :: string where
  "ascii_upper = ''ABCDEFGHIJKLMNOPQRSTUVWXYZ''"

definition ascii_lower :: string where
  "ascii_lower = ''abcdefghijklmnopqrstuvwxyz''"

text \<open>\<open>str.lower()\<close> and \<open>str.upper()\<close> on ASCII text; other characters are kept.\<close>

definition lower :: "string \<Rightarrow> string" where
  "lower s = map (\<lambda>c. case map_of (zip ascii_upper ascii_lower) c of Some d \<Rightarrow> d | None \<Rightarrow> c) s"

definition upper :: "string \<Rightarrow> string" where
  "upper s = map (\<lambda>c. case map_of (zip ascii_lower ascii_upper) c of Some d \<Rightarrow> d | None \<Rightarrow> c) s"

text \<open>The queue expression \<open>a or b or c\<close>: a later layer runs only when every earlier
  one returned the empty list.\<close>

definition layered_queue :: "world \<Rightarrow> string \<Rightarrow> pyval list comp" where
  "layered_queue w emotion =
     bindC (layer_user_recommendations w emotion) (\<lambda>q1.
     if q1 \<noteq> [] then retC q1
     else
     bindC (layer_playlist_matches w emotion) (\<lambda>q2.
     if q2 \<noteq> [] then retC q2
     else layer_global_recommendations w emotion))"

text \<open>The last block of \<open>play_for_emotion\<close>: the playback call on the first 50 entries
  of the queue and the line that reports the emotion and the length of the whole queue;
  \<open>except Exception\<close> reports the failure instead.\<close>

definition start_queue :: "world \<Rightarrow> pyval \<Rightarrow> string \<Rightarrow> pyval list \<Rightarrow> bool comp" where
  "start_queue w device emotion queue =
     tryC
       (bindC (service w (StartPlayback device (take 50 queue))) (\<lambda>r.
        bindC (py_print (NowPlaying (upper emotion) (length queue))) (\<lambda>u.
        retC True)))
       (\<lambda>e. bindC (py_print (PlaybackFailed e)) (\<lambda>u. retC False))"

definition play_for_emotion :: "world \<Rightarrow> string \<Rightarrow> bool comp" where
  "play_for_emotion w emotion0 =
     (let emotion = lower emotion0 in
      bindC (ensure_device w) (\<lambda>device.
      if \<not> truthy device then bindC (py_print NoActiveDevice) (\<lambda>u. retC False)
      else
      bindC (layered_queue w emotion) (\<lambda>queue.
      if queue = [] then bindC (py_print NoTracksFound) (\<lambda>u. retC False)
      else start_queue w device emotion queue)))"

section \<open>Basic controls\<close>

definition pause :: "world \<Rightarrow> unit comp" where
  "pause w = tryC (bindC (service w PausePlayback) (\<lambda>r. retC ())) (\<lambda>e. retC ())"

text \<open>The method \<open>next\<close> of the player.\<close>

definition next' :: "world \<Rightarrow> unit comp" where
  "next' w = tryC (bindC (service w NextTrack) (\<lambda>r. retC ())) (\<lambda>e. retC ())"

section \<open>The dominant emotion over the sampled frames\<close>

definition EMOTION_FRAMES :: nat where
  "EMOTION_FRAMES = 5"

text \<open>
  One pass of the sampling loop sees the flag \<open>ok\<close> of \<open>wm.get_frame()\<close> and what
  \<open>ea.analyze(frame)\<close> returns: \<open>None\<close>, or a dict, which is never empty and whose
  entry \<open>"emotion"\<close> is the label.
\<close>

type_synonym sample = "bool \<times> string option"

fun collect_emotions :: "sample list \<Rightarrow> string list \<Rightarrow> string list" where
  "collect_emotions [] emotions = emotions"
| "collect_emotions ((ok, data) # rest) emotions =
     (if \<not> ok then collect_emotions rest emotions
      else case data of
             None \<Rightarrow> collect_emotions rest emotions
           | Some e \<Rightarrow> collect_emotions rest (emotions @ [e]))"

text \<open>\<open>collections.Counter\<close>: a dict of counts, keys in the order of first insertion.\<close>

fun counter_add :: "string \<Rightarrow> (string \<times> nat) list \<Rightarrow> (string \<times> nat) list" where
  "counter_add x [] = [(x, 1)]"
| "counter_add x ((k, n) # rest) =
     (if k = x then (k, n + 1) # rest else (k, n) # counter_add x rest)"

definition Counter :: "string list \<Rightarrow> (string \<times> nat) list" where
  "Counter xs = foldl (\<lambda>c x. counter_add x c) [] xs"

text \<open>\<open>most_common(1)\<close> is \<open>max\<close> over the items by count, and \<open>max\<close> keeps the first
  of several maximal items: the candidate changes only for a strictly larger count.\<close>

fun max_by_count :: "string \<times> nat \<Rightarrow> (string \<times> nat) list \<Rightarrow> string \<times> nat" where
  "max_by_count best [] = best"
| "max_by_count best (kv # rest) = max_by_count (if snd best < snd kv then kv else best) rest"

definition most_common_1 :: "(string \<times> nat) list \<Rightarrow> (string \<times> nat) list" where
  "most_common_1 c = (case c of [] \<Rightarrow> [] | kv # rest \<Rightarrow> [max_by_count kv rest])"

definition detect_dominant_emotion :: "(nat \<Rightarrow> sample) \<Rightarrow> exn + string option" where
  "detect_dominant_emotion source =
     (let emotions = collect_emotions (map source [0..<EMOTION_FRAMES]) []
      in if emotions \<noteq> []
         then thenE (case most_common_1 (Counter emotions) of
                       [] \<Rightarrow> Inl IndexError
                     | kv # _ \<Rightarrow> Inr kv) (\<lambda>kv. Inr (Some (fst kv)))
         else Inr None)"

section \<open>Predicates of the specification\<close>

text \<open>
  The specification's reading of feature matching, on a dict \<open>kvs\<close> of measured values:
  every feature of the target set that the dict holds lies in its closed interval.
  \<open>numeric_on\<close> says that the dict holds a number under each target feature it has
  (other entries, such as the track's id, may be of any shape).
\<close>

definition within_targets :: "(string \<times> pyval) list \<Rightarrow> targets \<Rightarrow> bool" where
  "within_targets kvs target =
     list_all (\<lambda>(k, lo, hi). case map_of kvs k of
                                None \<Rightarrow> True
                              | Some v \<Rightarrow> (case v of PNum x \<Rightarrow> lo \<le> x \<and> x \<le> hi | _ \<Rightarrow> True))
       target"

definition numeric_on :: "(string \<times> pyval) list \<Rightarrow> targets \<Rightarrow> bool" where
  "numeric_on kvs target =
     list_all (\<lambda>(k, lo, hi). case map_of kvs k of
                                None \<Rightarrow> True
                              | Some v \<Rightarrow> (case v of PNum x \<Rightarrow> True | _ \<Rightarrow> False))
       target"

text \<open>The labels of the successful classifications among the samples, in the order of
  the frames: the capture gave a frame and the analysis a label.\<close>

definition successes :: "sample list \<Rightarrow> string list" where
  "successes samples =
     concat (map (\<lambda>(ok, data). case data of None \<Rightarrow> [] | Some e \<Rightarrow> if ok then [e] else []) samples)"

text \<open>What a run shows of the layers it entered: each layer prints its line first, so
  the layer lines printed between two states are the layers invoked between them.\<close>

definition layers_entered :: "state \<Rightarrow> state \<Rightarrow> msg list" where
  "layers_entered s s' =
     filter (\<lambda>m. m = LayerOne \<or> m = LayerTwo \<or> m = LayerThree)
       (drop (length (printed s)) (printed s'))"

text \<open>The last call of the run so far was answered by an exception.\<close>

definition last_call_failed :: "world \<Rightarrow> state \<Rightarrow> bool" where
  "last_call_failed w s =
     (case rev (calls s) of
        [] \<Rightarrow> False
      | c # h \<Rightarrow> (case respond w (rev h) c of Inl x \<Rightarrow> True | Inr r \<Rightarrow> False))"

text \<open>The calls among \<open>cs\<close>, made one after the other after the calls \<open>h\<close>, that
  the service answered by an exception.\<close>

fun failures :: "world \<Rightarrow> call list \<Rightarrow> call list \<Rightarrow> call list" where
  "failures w h [] = []"
| "failures w h (c # cs) =
     (case respond w h c of Inl x \<Rightarrow> [c] | Inr r \<Rightarrow> []) @ failures w (h @ [c]) cs"

text \<open>A computation that only adds calls to the log and that returns normally only if
  none of the calls it made failed.\<close>

definition clean :: "world \<Rightarrow> 'a comp \<Rightarrow> bool" where
  "clean w m =
     (\<forall>s r s'. m s = (r, s') \<longrightarrow>
        (\<exists>cs. calls s' = calls s @ cs \<and> (\<forall>x. r = Inr x \<longrightarrow> failures w (calls s) cs = [])))"

section \<open>Example worlds\<close>

definition fresh :: state where
  "fresh = \<lparr>calls = [], printed = [], draws = 0\<rparr>"

text \<open>A service whose answer depends on the call only.\<close>

definition scripted :: "(call \<Rightarrow> exn + pyval) \<Rightarrow> world" where
  "scripted f = \<lparr>respond = (\<lambda>h c. f c), pick = (\<lambda>n. n)\<rparr>"

definition one_device :: pyval where
  "one_device =
     PDict [(''devices'', PList [PDict [(''id'', PStr ''dev1''), (''is_active'', PBool True)]])]"

definition track :: "string \<Rightarrow> string \<Rightarrow> pyval" where
  "track i u = PDict [(''id'', PStr i), (''uri'', PStr u)]"

text \<open>No connection: every call raises.\<close>

definition offline_world :: world where
  "offline_world = scripted (\<lambda>c. Inl (ServiceError ''offline''))"

text \<open>A device and a taste profile: the first recommendation answers with two tracks.\<close>

definition taste_world :: world where
  "taste_world = scripted (\<lambda>c. case c of
       Devices \<Rightarrow> Inr one_device
     | CurrentUserTopArtists n \<Rightarrow> Inr (PDict [(''items'', PList [PDict [(''id'', PStr ''ar1'')]])])
     | CurrentUserTopTracks n \<Rightarrow> Inr (PDict [(''items'', PList [])])
     | Recommendations g a t n tg \<Rightarrow>
         Inr (PDict [(''tracks'', PList [track ''t1'' ''uri:1'', track ''t2'' ''uri:2''])])
     | _ \<Rightarrow> Inr PNone)"

text \<open>A device, no taste profile, one playlist of two tracks with measured features.\<close>

definition playlist_world :: world where
  "playlist_world = scripted (\<lambda>c. case c of
       Devices \<Rightarrow> Inr one_device
     | TransferPlayback d \<Rightarrow> Inl (ServiceError ''transfer refused'')
     | CurrentUserPlaylists \<Rightarrow> Inr (PDict [(''items'', PList [PDict [(''id'', PStr ''pl1'')]])])
     | PlaylistTracks p n \<Rightarrow>
         Inr (PDict [(''items'', PList [PDict [(''track'', track ''a'' ''uri:a'')],
                                        PDict [(''track'', track ''b'' ''uri:b'')]])])
     | AudioFeatures ids \<Rightarrow>
         Inr (PList [PDict [(''valence'', PNum (9/10)), (''energy'', PNum (8/10))],
                     PDict [(''valence'', PNum (1/10)), (''energy'', PNum (8/10))]])
     | StartPlayback d us \<Rightarrow> Inr PNone
     | _ \<Rightarrow> Inl (ServiceError ''unavailable''))"

text \<open>A device, nothing personal, recommendations without tracks: only the search
  answers.\<close>

definition search_world :: world where
  "search_world = scripted (\<lambda>c. case c of
       Devices \<Rightarrow> Inr one_device
     | CurrentUserTopArtists n \<Rightarrow> Inr (PDict [(''items'', PList [])])
     | CurrentUserTopTracks n \<Rightarrow> Inr (PDict [(''items'', PList [])])
     | Recommendations g a t n tg \<Rightarrow> Inr (PDict [(''tracks'', PList [])])
     | CurrentUserPlaylists \<Rightarrow> Inr (PDict [(''items'', PList [])])
     | Search q ty n \<Rightarrow>
         Inr (PDict [(''tracks'', PDict [(''items'', PList [track ''s1'' ''uri:s1''])])])
     | StartPlayback d us \<Rightarrow> Inl (ServiceError ''premium required'')
     | _ \<Rightarrow> Inr PNone)"

text \<open>A device and a first recommendation that answers with 120 tracks.\<close>

definition label :: "nat \<Rightarrow> string" where
  "label n = [char_of (65 + n div 10), char_of (48 + n mod 10)]"

definition numbered :: "nat \<Rightarrow> pyval" where
  "numbered n = track (label n) (''uri:'' @ label n)"

definition crowd_world :: world where
  "crowd_world = scripted (\<lambda>c. case c of
       Devices \<Rightarrow> Inr one_device
     | CurrentUserTopArtists n \<Rightarrow> Inr (PDict [(''items'', PList [])])
     | CurrentUserTopTracks n \<Rightarrow> Inr (PDict [(''items'', PList [])])
     | Recommendations g a t n tg \<Rightarrow> Inr (PDict [(''tracks'', PList (map numbered [0..<120]))])
     | _ \<Rightarrow> Inr PNone)"

text \<open>One playlist whose first item has lost its track (\<open>"track": null\<close>), followed by
  the tracks \<open>a\<close> and \<open>b\<close>. The feature service answers for the ids it is given,
  in their order: \<open>a\<close> is a low-valence track, \<open>b\<close> a high-valence one.\<close>

definition measured :: "pyval \<Rightarrow> pyval" where
  "measured i =
     (if i = PStr ''a'' then PDict [(''id'', PStr ''a''), (''valence'', PNum (1/10))]
      else if i = PStr ''b'' then PDict [(''id'', PStr ''b''), (''valence'', PNum (9/10))]
      else PNone)"

definition null_track_world :: world where
  "null_track_world = scripted (\<lambda>c. case c of
       CurrentUserPlaylists \<Rightarrow> Inr (PDict [(''items'', PList [PDict [(''id'', PStr ''pl1'')]])])
     | PlaylistTracks p n \<Rightarrow>
         Inr (PDict [(''items'', PList [PDict [(''track'', PNone)],
                                        PDict [(''track'', track ''a'' ''uri:a'')],
                                        PDict [(''track'', track ''b'' ''uri:b'')]])])
     | AudioFeatures ids \<Rightarrow> Inr (PList (map measured ids))
     | _ \<Rightarrow> Inl (ServiceError ''unavailable''))"

text \<open>Frame sources: a tie between two labels (the second capture gives no frame), a
  majority of three to two, and five frames without a label.\<close>

definition tie_frames :: "nat \<Rightarrow> sample" where
  "tie_frames i =
     (if i < 5
      then [(True, Some ''sad''), (False, None), (True, Some ''happy''),
            (True, Some ''happy''), (True, Some ''sad'')] ! i
      else (False, None))"

definition majority_frames :: "nat \<Rightarrow> sample" where
  "majority_frames i =
     (if i < 5
      then [(True, Some ''sad''), (True, Some ''happy''), (True, Some ''happy''),
            (True, Some ''sad''), (True, Some ''happy'')] ! i
      else (False, None))"

definition blank_frames :: "nat \<Rightarrow> sample" where
  "blank_frames i = (if even i then (False, None) else (True, None))"

section \<open>Feature matching against the target intervals\<close>

lemma match_features_dict:
  "numeric_on kvs target \<Longrightarrow> match_features (PDict kvs) target = Inr (within_targets kvs target)"
proof (induction target)
  case Nil
  show ?case by (simp add: within_targets_def)
next
  case (Cons t target)
  obtain k lo hi where t: "t = (k, lo, hi)" by (cases t)
  from Cons.prems have rest: "numeric_on kvs target"
    by (simp add: numeric_on_def)
  have IH: "match_features (PDict kvs) target = Inr (within_targets kvs target)"
    by (rule Cons.IH [OF rest])
  show ?case
  proof (cases "map_of kvs k")
    case None
    then have "k \<notin> fst ` set kvs" by (simp add: map_of_eq_None_iff)
    then show ?thesis using IH None by (simp add: t thenE_def within_targets_def)
  next
    case (Some v)
    with Cons.prems obtain x where v: "v = PNum x"
      by (cases v) (simp_all add: t numeric_on_def)
    have "k \<in> fst ` set kvs" using Some by (metis map_of_eq_None_iff option.distinct(1))
    then show ?thesis using IH Some v by (auto simp add: t thenE_def within_targets_def)
  qed
qed

lemma match_features_no_overlap:
  assumes "\<forall>t \<in> set target. map_of kvs (fst t) = None"
  shows "match_features (PDict kvs) target = Inr True"
proof -
  have "numeric_on kvs target"
    using assms by (auto simp add: numeric_on_def list_all_iff)
  moreover have "within_targets kvs target"
    using assms by (auto simp add: within_targets_def list_all_iff)
  ultimately show ?thesis by (simp add: match_features_dict)
qed

text \<open>
  C3. \<open>_match_features\<close> keeps a track exactly when every feature of the target set
  that the track's feature map holds lies in its interval, bounds included. A feature the
  map lacks does not constrain, so a map that shares no feature with the target set
  passes. With the interval (0.7, 1.0) for valence, 0.8 passes, 0.5 fails, and a map
  without valence passes.
\<close>

theorem match_features_within_intervals:
  "(numeric_on kvs target \<longrightarrow>
      match_features (PDict kvs) target = Inr (within_targets kvs target))
   \<and> ((\<forall>t \<in> set target. map_of kvs (fst t) = None) \<longrightarrow>
      match_features (PDict kvs) target = Inr True)
   \<and> match_features (PDict [(''valence'', PNum (8/10))]) [(''valence'', 7/10, 1)] = Inr True
   \<and> match_features (PDict [(''valence'', PNum (5/10))]) [(''valence'', 7/10, 1)] = Inr False
   \<and> match_features (PDict [(''loudness'', PNum (- 5))]) [(''valence'', 7/10, 1)] = Inr True"
proof (intro conjI impI)
  assume "numeric_on kvs target"
  then show "match_features (PDict kvs) target = Inr (within_targets kvs target)"
    by (rule match_features_dict)
next
  assume "\<forall>t \<in> set target. map_of kvs (fst t) = None"
  then show "match_features (PDict kvs) target = Inr True"
    by (rule match_features_no_overlap)
qed (simp_all add: thenE_def)

theorem match_features_within_intervals_witness:
  "numeric_on [(''id'', PStr ''a''), (''valence'', PNum (3/4)), (''energy'', PNum (1/2))]
     (dict_get EMOTION_TARGETS ''happy'' [])
   \<and> \<not> within_targets [(''id'', PStr ''a''), (''valence'', PNum (3/4)), (''energy'', PNum (1/2))]
     (dict_get EMOTION_TARGETS ''happy'' [])
   \<and> match_features
       (PDict [(''id'', PStr ''a''), (''valence'', PNum (3/4)), (''energy'', PNum (1/2))])
       (dict_get EMOTION_TARGETS ''happy'' []) = Inr False
   \<and> map (\<lambda>t. map_of [(''tempo'', PNum 120)] (fst t)) (dict_get EMOTION_TARGETS ''neutral'' [])
       = [None, None]
   \<and> match_features (PDict [(''tempo'', PNum 120)]) (dict_get EMOTION_TARGETS ''neutral'' [])
       = Inr True"
proof -
  let ?kvs = "[(''id'', PStr ''a''), (''valence'', PNum (3/4)), (''energy'', PNum (1/2))]"
  let ?happy = "dict_get EMOTION_TARGETS ''happy'' []"
  let ?neutral = "dict_get EMOTION_TARGETS ''neutral'' []"
  have happy: "?happy = [(''valence'', 7/10, 1), (''energy'', 6/10, 1), (''danceability'', 5/10, 1)]"
    by (simp add: dict_get_def EMOTION_TARGETS_def)
  have neutral: "?neutral = [(''valence'', 4/10, 6/10), (''energy'', 4/10, 6/10)]"
    by (simp add: dict_get_def EMOTION_TARGETS_def)
  have num: "numeric_on ?kvs ?happy"
    unfolding happy by (simp add: numeric_on_def)
  have out: "\<not> within_targets ?kvs ?happy"
    unfolding happy by (simp add: within_targets_def)
  have none: "\<forall>t \<in> set ?neutral. map_of [(''tempo'', PNum 120)] (fst t) = None"
    unfolding neutral by simp
  from match_features_within_intervals [of ?kvs ?happy] num out
  have a: "match_features (PDict ?kvs) ?happy = Inr False" by simp
  from match_features_within_intervals [of "[(''tempo'', PNum 120)]" ?neutral] none
  have b: "match_features (PDict [(''tempo'', PNum 120)]) ?neutral = Inr True" by blast
  have absent: "map (\<lambda>t. map_of [(''tempo'', PNum 120)] (fst t)) ?neutral = [None, None]"
    unfolding neutral by simp
  from num out a absent b show ?thesis by blast
qed

section \<open>The target profile\<close>



section \<open>Running the player: what each part returns and leaves behind\<close>

lemmas run_defs = tryC_def bindC_def service_def liftE_def retC_def py_print_def
  random_choice_def thenE_def

lemmas world_defs = scripted_def one_device_def track_def fresh_def

lemmas layer_defs = ensure_device_def get_active_device_def layer_user_recommendations_def
  layer_playlist_matches_def layer_global_recommendations_def global_attempt_def
  global_search_def first_id_def uris_of_def dict_get_def EMOTION_GENRES_def
  convert_targets_def EMOTION_TARGETS_def lower_def upper_def ascii_upper_def ascii_lower_def
  layered_queue_def

lemma get_active_device_run:
  "\<exists>d. get_active_device w s = (Inr d, s\<lparr>calls := calls s @ [Devices]\<rparr>)"
  by (auto simp add: get_active_device_def tryC_def bindC_def service_def liftE_def retC_def
      split: sum.splits prod.splits)

lemma ensure_device_run:
  "\<exists>d. ensure_device w s =
     (Inr d, s\<lparr>calls := calls s @ (if truthy d then [Devices, TransferPlayback d] else [Devices])\<rparr>)"
proof -
  obtain d where d: "get_active_device w s = (Inr d, s\<lparr>calls := calls s @ [Devices]\<rparr>)"
    using get_active_device_run by blast
  show ?thesis
    by (rule exI [of _ d])
      (simp add: ensure_device_def bindC_def d tryC_def service_def retC_def split: sum.splits)
qed

lemma ensure_device_printed:
  "ensure_device w s = (r, s1) \<Longrightarrow> printed s1 = printed s"
  using ensure_device_run [of w s] by auto

lemma layer_user_recommendations_run:
  "\<exists>q s'. layer_user_recommendations w e s = (Inr q, s') \<and> printed s' = printed s @ [LayerOne]"
  by (auto simp add: layer_user_recommendations_def tryC_def bindC_def service_def liftE_def
      retC_def py_print_def random_choice_def split: sum.splits prod.splits if_splits)

lemma playlists_loop_printed:
  "playlists_loop w t pls m s = (r, s') \<Longrightarrow> printed s' = printed s"
proof (induction pls arbitrary: m s)
  case Nil
  then show ?case by (simp add: retC_def)
next
  case (Cons pl pls)
  from Cons.prems show ?case
    by (auto simp add: bindC_def service_def liftE_def split: sum.splits prod.splits if_splits
        dest: Cons.IH)
qed

lemma layer_playlist_matches_run:
  "\<exists>q s'. layer_playlist_matches w e s = (Inr q, s') \<and> printed s' = printed s @ [LayerTwo]"
  by (auto simp add: layer_playlist_matches_def tryC_def bindC_def service_def liftE_def
      retC_def py_print_def split: sum.splits prod.splits if_splits dest: playlists_loop_printed)

lemma layer_global_recommendations_run:
  "\<exists>q s'. layer_global_recommendations w e s = (Inr q, s') \<and> printed s' = printed s @ [LayerThree]"
  by (auto simp add: layer_global_recommendations_def global_attempt_def global_search_def
      tryC_def bindC_def service_def liftE_def
      retC_def py_print_def random_choice_def split: sum.splits prod.splits if_splits option.splits)


lemma start_queue_run:
  "start_queue w d e q s =
     (case respond w (calls s) (StartPlayback d (take 50 q)) of
        Inr r \<Rightarrow> (Inr True, s\<lparr>calls := calls s @ [StartPlayback d (take 50 q)],
                              printed := printed s @ [NowPlaying (upper e) (length q)]\<rparr>)
      | Inl x \<Rightarrow> (Inr False, s\<lparr>calls := calls s @ [StartPlayback d (take 50 q)],
                               printed := printed s @ [PlaybackFailed x]\<rparr>))"
  by (simp add: start_queue_def tryC_def bindC_def service_def retC_def py_print_def
      split: sum.splits)

lemma start_queue_printed:
  "\<exists>b s' m. start_queue w d e q s = (Inr b, s') \<and> printed s' = printed s @ [m]
     \<and> m \<noteq> LayerOne \<and> m \<noteq> LayerTwo \<and> m \<noteq> LayerThree"
  by (auto simp add: start_queue_run split: sum.splits)

lemma play_with_device:
  assumes "ensure_device w s = (Inr d, s1)" and "truthy d"
    and "layered_queue w (lower e) s1 = (Inr q, s2)"
  shows "play_for_emotion w e s =
           (if q = [] then (Inr False, s2\<lparr>printed := printed s2 @ [NoTracksFound]\<rparr>)
            else start_queue w d (lower e) q s2)"
  using assms by (simp add: play_for_emotion_def Let_def bindC_def py_print_def retC_def)

lemma layers_entered_append:
  "printed s' = printed s @ ms \<Longrightarrow>
   layers_entered s s' = filter (\<lambda>m. m = LayerOne \<or> m = LayerTwo \<or> m = LayerThree) ms"
  by (simp add: layers_entered_def)

lemma layers_entered_start_queue:
  assumes "printed s2 = printed s @ ms"
  shows "layers_entered s (snd (start_queue w d e q s2)) =
           filter (\<lambda>m. m = LayerOne \<or> m = LayerTwo \<or> m = LayerThree) ms"
proof -
  obtain b s' m where r: "start_queue w d e q s2 = (Inr b, s')"
    and p: "printed s' = printed s2 @ [m]"
    and m: "m \<noteq> LayerOne" "m \<noteq> LayerTwo" "m \<noteq> LayerThree"
    using start_queue_printed by blast
  have "printed s' = printed s @ (ms @ [m])" using p assms by simp
  then have "layers_entered s s' =
      filter (\<lambda>m. m = LayerOne \<or> m = LayerTwo \<or> m = LayerThree) (ms @ [m])"
    by (rule layers_entered_append)
  then show ?thesis using r m by simp
qed

section \<open>The example worlds, run\<close>

lemma pick_scripted: "pick (scripted f) n = n"
  by (simp add: scripted_def)

lemma pick_worlds:
  "pick taste_world n = n" "pick search_world n = n" "pick offline_world n = n"
  by (simp_all add: taste_world_def search_world_def offline_world_def pick_scripted)

lemma taste_recommendations:
  "respond taste_world h (Recommendations g a t n tg) =
     Inr (PDict [(''tracks'', PList [track ''t1'' ''uri:1'', track ''t2'' ''uri:2''])])"
  by (simp add: taste_world_def scripted_def)

lemma search_recommendations:
  "respond search_world h (Recommendations g a t n tg) = Inr (PDict [(''tracks'', PList [])])"
  by (simp add: search_world_def scripted_def)

lemma search_search:
  "respond search_world h (Search q ty n) =
     Inr (PDict [(''tracks'', PDict [(''items'', PList [track ''s1'' ''uri:s1''])])])"
  by (simp add: search_world_def scripted_def)

lemma offline_respond: "respond offline_world h c = Inl (ServiceError ''offline'')"
  by (simp add: offline_world_def scripted_def)

lemma dev1_truthy: "truthy (PStr ''dev1'')"
  by simp

lemma taste_dev: "ensure_device taste_world fresh =
    (Inr (PStr ''dev1''),
     \<lparr>calls = [Devices, TransferPlayback (PStr ''dev1'')], printed = [], draws = 0\<rparr>)"
  by (simp add: layer_defs run_defs world_defs taste_world_def)

lemma taste_l1: "layer_user_recommendations taste_world (lower ''Happy'')
      \<lparr>calls = [Devices, TransferPlayback (PStr ''dev1'')], printed = [], draws = 0\<rparr> =
    (Inr [PStr ''uri:1'', PStr ''uri:2''],
     \<lparr>calls = [Devices, TransferPlayback (PStr ''dev1''), CurrentUserTopArtists 5,
               CurrentUserTopTracks 5,
               Recommendations [''pop''] (Some [PStr ''ar1'']) None 40
                 [(''target_valence'', 17/20), (''target_energy'', 4/5),
                  (''target_danceability'', 3/4)]],
        printed = [LayerOne], draws = 1\<rparr>)"
  by (simp add: layer_defs run_defs world_defs taste_world_def)

lemma playlist_dev: "ensure_device playlist_world fresh =
    (Inr (PStr ''dev1''),
     \<lparr>calls = [Devices, TransferPlayback (PStr ''dev1'')], printed = [], draws = 0\<rparr>)"
  by (simp add: layer_defs run_defs world_defs playlist_world_def)

lemma playlist_l1: "layer_user_recommendations playlist_world (lower ''Happy'')
      \<lparr>calls = [Devices, TransferPlayback (PStr ''dev1'')], printed = [], draws = 0\<rparr> =
    (Inr [],
     \<lparr>calls = [Devices, TransferPlayback (PStr ''dev1''), CurrentUserTopArtists 5],
        printed = [LayerOne], draws = 0\<rparr>)"
  by (simp add: layer_defs run_defs world_defs playlist_world_def)

lemma playlist_l2: "layer_playlist_matches playlist_world (lower ''Happy'')
     \<lparr>calls = [Devices, TransferPlayback (PStr ''dev1''), CurrentUserTopArtists 5],
        printed = [LayerOne], draws = 0\<rparr> =
    (Inr [PStr ''uri:a''],
     \<lparr>calls = [Devices, TransferPlayback (PStr ''dev1''), CurrentUserTopArtists 5,
         CurrentUserPlaylists, PlaylistTracks (PStr ''pl1'') 50,
         AudioFeatures [PStr ''a'', PStr ''b'']],
        printed = [LayerOne, LayerTwo], draws = 0\<rparr>)"
  by (simp add: layer_defs run_defs world_defs playlist_world_def)

lemma search_dev: "ensure_device search_world fresh =
    (Inr (PStr ''dev1''),
     \<lparr>calls = [Devices, TransferPlayback (PStr ''dev1'')], printed = [], draws = 0\<rparr>)"
  by (simp add: layer_defs run_defs world_defs search_world_def)

lemma search_l1: "layer_user_recommendations search_world (lower ''Bored'')
      \<lparr>calls = [Devices, TransferPlayback (PStr ''dev1'')], printed = [], draws = 0\<rparr> =
    (Inr [],
     \<lparr>calls = [Devices, TransferPlayback (PStr ''dev1''), CurrentUserTopArtists 5,
               CurrentUserTopTracks 5, Recommendations [''pop''] None None 40 []],
        printed = [LayerOne], draws = 1\<rparr>)"
  by (simp add: layer_defs run_defs world_defs search_world_def)

lemma search_l2: "layer_playlist_matches search_world (lower ''Bored'')
     \<lparr>calls = [Devices, TransferPlayback (PStr ''dev1''), CurrentUserTopArtists 5,
               CurrentUserTopTracks 5, Recommendations [''pop''] None None 40 []],
        printed = [LayerOne], draws = 1\<rparr> =
    (Inr [],
     \<lparr>calls = [Devices, TransferPlayback (PStr ''dev1''), CurrentUserTopArtists 5,
               CurrentUserTopTracks 5, Recommendations [''pop''] None None 40 [],
               CurrentUserPlaylists],
        printed = [LayerOne, LayerTwo], draws = 1\<rparr>)"
  by (simp add: layer_defs run_defs world_defs search_world_def)





lemma uris_loop_numbered:
  "uris_loop (map numbered ns) = Inr (map (\<lambda>n. PStr (''uri:'' @ label n)) ns)"
  by (induction ns) (simp_all add: numbered_def track_def thenE_def)

lemma crowd_dev: "ensure_device crowd_world fresh =
    (Inr (PStr ''dev1''), \<lparr>calls = [Devices, TransferPlayback (PStr ''dev1'')], printed = [], draws = 0\<rparr>)"
  by (simp add: layer_defs run_defs world_defs crowd_world_def)

lemma crowd_queue: "layered_queue crowd_world (lower ''HAPPY'')
      \<lparr>calls = [Devices, TransferPlayback (PStr ''dev1'')], printed = [], draws = 0\<rparr> =
    (Inr (map (\<lambda>n. PStr (''uri:'' @ label n)) [0..<120]),
     \<lparr>calls = [Devices, TransferPlayback (PStr ''dev1''), CurrentUserTopArtists 5,
               CurrentUserTopTracks 5,
               Recommendations [''pop''] None None 40
                 [(''target_valence'', 17/20), (''target_energy'', 4/5),
                  (''target_danceability'', 3/4)]],
        printed = [LayerOne], draws = 1\<rparr>)"
  by (simp add: layer_defs run_defs world_defs crowd_world_def uris_loop_numbered del: upt.simps upt_rec_numeral)

section \<open>Basic controls never raise\<close>

text \<open>
  C10. \<open>pause()\<close> and \<open>next()\<close> return normally with \<open>None\<close>, whatever
  \<open>pause_playback\<close> or \<open>next_track\<close> does: the call is made once and an exception it
  raises goes no further.
\<close>

theorem pause_next_swallow:
  "pause w s = (Inr (), s\<lparr>calls := calls s @ [PausePlayback]\<rparr>)
   \<and> next' w s = (Inr (), s\<lparr>calls := calls s @ [NextTrack]\<rparr>)"
  by (simp add: pause_def next'_def tryC_def bindC_def service_def retC_def split: sum.splits)

theorem pause_next_swallow_witness:
  "respond offline_world [] PausePlayback = Inl (ServiceError ''offline'')
   \<and> respond offline_world [] NextTrack = Inl (ServiceError ''offline'')
   \<and> pause offline_world fresh = (Inr (), \<lparr>calls = [PausePlayback], printed = [], draws = 0\<rparr>)
   \<and> next' offline_world fresh = (Inr (), \<lparr>calls = [NextTrack], printed = [], draws = 0\<rparr>)"
  using pause_next_swallow [of offline_world fresh]
  by (simp add: offline_world_def world_defs)

section \<open>No device, no recommendation work\<close>

text \<open>
  C5. When device resolution gives no usable device, \<open>play_for_emotion\<close> returns
  \<open>False\<close> at once: the only call of the whole run is the device listing, so neither the
  recommendations nor the playlists nor the search is asked, and the only line printed is
  the one about the missing device.
\<close>

theorem no_device_no_layer:
  assumes "ensure_device w s = (Inr d, s1)" and "\<not> truthy d"
  shows "play_for_emotion w e s =
           (Inr False, s\<lparr>calls := calls s @ [Devices], printed := printed s @ [NoActiveDevice]\<rparr>)"
proof -
  from ensure_device_run [of w s] assms have s1: "s1 = s\<lparr>calls := calls s @ [Devices]\<rparr>"
    by auto
  show ?thesis
    using assms by (simp add: play_for_emotion_def Let_def bindC_def py_print_def retC_def s1)
qed

theorem no_device_no_layer_witness:
  "ensure_device offline_world fresh = (Inr PNone, \<lparr>calls = [Devices], printed = [], draws = 0\<rparr>)
   \<and> \<not> truthy PNone
   \<and> play_for_emotion offline_world ''Happy'' fresh =
       (Inr False, \<lparr>calls = [Devices], printed = [NoActiveDevice], draws = 0\<rparr>)"
proof -
  have a: "ensure_device offline_world fresh =
             (Inr PNone, \<lparr>calls = [Devices], printed = [], draws = 0\<rparr>)"
    by (simp add: ensure_device_def get_active_device_def run_defs world_defs offline_world_def)
  have b: "\<not> truthy PNone" by simp
  from no_device_no_layer [OF a b, of "''Happy''"] a b show ?thesis
    by (simp add: fresh_def)
qed

section \<open>The layers in priority order\<close>

text \<open>
  C1. With a device resolved, \<open>play_for_emotion\<close> plays the queue of the first layer that
  returns at least one URI and enters no later layer. If Layer 1 returns a non-empty queue,
  the run continues from the state Layer 1 left with the playback call, and the only
  layer line printed is that of Layer 1. If Layer 1 returns the empty queue, that is no
  error: Layer 2 runs next, and if its queue is not empty it is played and Layer 3 is not
  entered. Only when both are empty does Layer 3 run.
\<close>

theorem layer_short_circuit:
  assumes dev: "ensure_device w s = (Inr d, s1)" and td: "truthy d"
      and l1: "layer_user_recommendations w (lower e) s1 = (Inr q1, s2)"
  shows
    "(q1 \<noteq> [] \<longrightarrow>
        layered_queue w (lower e) s1 = (Inr q1, s2)
        \<and> play_for_emotion w e s = start_queue w d (lower e) q1 s2
        \<and> layers_entered s (snd (play_for_emotion w e s)) = [LayerOne])
     \<and> (q1 = [] \<longrightarrow>
        (\<forall>q2 s3. layer_playlist_matches w (lower e) s2 = (Inr q2, s3) \<longrightarrow>
           (q2 \<noteq> [] \<longrightarrow>
              layered_queue w (lower e) s1 = (Inr q2, s3)
              \<and> play_for_emotion w e s = start_queue w d (lower e) q2 s3
              \<and> layers_entered s (snd (play_for_emotion w e s)) = [LayerOne, LayerTwo])
           \<and> (q2 = [] \<longrightarrow>
              layered_queue w (lower e) s1 = layer_global_recommendations w (lower e) s3
              \<and> layers_entered s (snd (play_for_emotion w e s))
                  = [LayerOne, LayerTwo, LayerThree])))"
proof -
  have p1: "printed s1 = printed s" using dev by (rule ensure_device_printed)
  have p2: "printed s2 = printed s @ [LayerOne]"
    using layer_user_recommendations_run [of w "lower e" s1] l1 p1 by auto
  have first: "layered_queue w (lower e) s1 = (Inr q1, s2)
      \<and> play_for_emotion w e s = start_queue w d (lower e) q1 s2
      \<and> layers_entered s (snd (play_for_emotion w e s)) = [LayerOne]" if ne: "q1 \<noteq> []"
  proof -
    have q: "layered_queue w (lower e) s1 = (Inr q1, s2)"
      using l1 ne by (simp add: layered_queue_def bindC_def retC_def)
    have p: "play_for_emotion w e s = start_queue w d (lower e) q1 s2"
      using play_with_device [OF dev td q] ne by simp
    have "layers_entered s (snd (start_queue w d (lower e) q1 s2)) = [LayerOne]"
      using layers_entered_start_queue [OF p2] by simp
    with q p show ?thesis by simp
  qed
  have later: "(q2 \<noteq> [] \<longrightarrow>
              layered_queue w (lower e) s1 = (Inr q2, s3)
              \<and> play_for_emotion w e s = start_queue w d (lower e) q2 s3
              \<and> layers_entered s (snd (play_for_emotion w e s)) = [LayerOne, LayerTwo])
           \<and> (q2 = [] \<longrightarrow>
              layered_queue w (lower e) s1 = layer_global_recommendations w (lower e) s3
              \<and> layers_entered s (snd (play_for_emotion w e s))
                  = [LayerOne, LayerTwo, LayerThree])"
    if e1: "q1 = []" and l2: "layer_playlist_matches w (lower e) s2 = (Inr q2, s3)"
    for q2 s3
  proof -
    have p3: "printed s3 = printed s @ [LayerOne, LayerTwo]"
      using layer_playlist_matches_run [of w "lower e" s2] l2 p2 by auto
    have second: "layered_queue w (lower e) s1 = (Inr q2, s3)
        \<and> play_for_emotion w e s = start_queue w d (lower e) q2 s3
        \<and> layers_entered s (snd (play_for_emotion w e s)) = [LayerOne, LayerTwo]"
      if ne: "q2 \<noteq> []"
    proof -
      have q: "layered_queue w (lower e) s1 = (Inr q2, s3)"
        using l1 l2 e1 ne by (simp add: layered_queue_def bindC_def retC_def)
      have p: "play_for_emotion w e s = start_queue w d (lower e) q2 s3"
        using play_with_device [OF dev td q] ne by simp
      have "layers_entered s (snd (start_queue w d (lower e) q2 s3)) = [LayerOne, LayerTwo]"
        using layers_entered_start_queue [OF p3] by simp
      with q p show ?thesis by simp
    qed
    have third: "layered_queue w (lower e) s1 = layer_global_recommendations w (lower e) s3
        \<and> layers_entered s (snd (play_for_emotion w e s)) = [LayerOne, LayerTwo, LayerThree]"
      if e2: "q2 = []"
    proof -
      have q: "layered_queue w (lower e) s1 = layer_global_recommendations w (lower e) s3"
        using l1 l2 e1 e2 by (simp add: layered_queue_def bindC_def retC_def)
      obtain q3 s4 where l3: "layer_global_recommendations w (lower e) s3 = (Inr q3, s4)"
        and p4': "printed s4 = printed s3 @ [LayerThree]"
        using layer_global_recommendations_run by blast
      have p4: "printed s4 = printed s @ [LayerOne, LayerTwo, LayerThree]"
        using p4' p3 by simp
      have q': "layered_queue w (lower e) s1 = (Inr q3, s4)" using q l3 by simp
      have "layers_entered s (snd (play_for_emotion w e s)) = [LayerOne, LayerTwo, LayerThree]"
      proof (cases "q3 = []")
        case True
        then have "play_for_emotion w e s =
            (Inr False, s4\<lparr>printed := printed s4 @ [NoTracksFound]\<rparr>)"
          using play_with_device [OF dev td q'] by simp
        then show ?thesis using p4 by (simp add: layers_entered_def)
      next
        case False
        then have "play_for_emotion w e s = start_queue w d (lower e) q3 s4"
          using play_with_device [OF dev td q'] by simp
        then show ?thesis using layers_entered_start_queue [OF p4] by simp
      qed
      with q show ?thesis by simp
    qed
    from second third show ?thesis by blast
  qed
  from first later show ?thesis by blast
qed

theorem layer_short_circuit_witness:
  "ensure_device taste_world fresh =
     (Inr (PStr ''dev1''),
      \<lparr>calls = [Devices, TransferPlayback (PStr ''dev1'')], printed = [], draws = 0\<rparr>)
   \<and> truthy (PStr ''dev1'')
   \<and> layers_entered fresh (snd (play_for_emotion taste_world ''Happy'' fresh)) = [LayerOne]
   \<and> play_for_emotion taste_world ''Happy'' fresh =
       (Inr True,
        \<lparr>calls = [Devices, TransferPlayback (PStr ''dev1''), CurrentUserTopArtists 5,
                  CurrentUserTopTracks 5,
                  Recommendations [''pop''] (Some [PStr ''ar1'']) None 40
                    [(''target_valence'', 17/20), (''target_energy'', 4/5),
                     (''target_danceability'', 3/4)],
                  StartPlayback (PStr ''dev1'') [PStr ''uri:1'', PStr ''uri:2'']],
           printed = [LayerOne, NowPlaying ''HAPPY'' 2], draws = 1\<rparr>)
   \<and> layers_entered fresh (snd (play_for_emotion playlist_world ''Happy'' fresh))
       = [LayerOne, LayerTwo]
   \<and> play_for_emotion playlist_world ''Happy'' fresh =
       (Inr True,
        \<lparr>calls = [Devices, TransferPlayback (PStr ''dev1''), CurrentUserTopArtists 5,
                  CurrentUserPlaylists, PlaylistTracks (PStr ''pl1'') 50,
                  AudioFeatures [PStr ''a'', PStr ''b''],
                  StartPlayback (PStr ''dev1'') [PStr ''uri:a'']],
           printed = [LayerOne, LayerTwo, NowPlaying ''HAPPY'' 1], draws = 0\<rparr>)
   \<and> layers_entered fresh (snd (play_for_emotion search_world ''Bored'' fresh))
       = [LayerOne, LayerTwo, LayerThree]"
proof -
  have ne1: "[PStr ''uri:1'', PStr ''uri:2''] \<noteq> []" by simp
  from layer_short_circuit [OF taste_dev dev1_truthy taste_l1] ne1
  have a: "play_for_emotion taste_world ''Happy'' fresh =
             start_queue taste_world (PStr ''dev1'') (lower ''Happy'')
               [PStr ''uri:1'', PStr ''uri:2'']
               \<lparr>calls = [Devices, TransferPlayback (PStr ''dev1''), CurrentUserTopArtists 5,
                          CurrentUserTopTracks 5,
                          Recommendations [''pop''] (Some [PStr ''ar1'']) None 40
                            [(''target_valence'', 17/20), (''target_energy'', 4/5),
                             (''target_danceability'', 3/4)]],
                  printed = [LayerOne], draws = 1\<rparr>"
    and a': "layers_entered fresh (snd (play_for_emotion taste_world ''Happy'' fresh)) = [LayerOne]"
    by blast+
  have ne2: "[PStr ''uri:a''] \<noteq> []" by simp
  from layer_short_circuit [OF playlist_dev dev1_truthy playlist_l1] playlist_l2 ne2
  have b: "play_for_emotion playlist_world ''Happy'' fresh =
             start_queue playlist_world (PStr ''dev1'') (lower ''Happy'') [PStr ''uri:a'']
               \<lparr>calls = [Devices, TransferPlayback (PStr ''dev1''), CurrentUserTopArtists 5,
                          CurrentUserPlaylists, PlaylistTracks (PStr ''pl1'') 50,
                          AudioFeatures [PStr ''a'', PStr ''b'']],
                  printed = [LayerOne, LayerTwo], draws = 0\<rparr>"
    and b': "layers_entered fresh (snd (play_for_emotion playlist_world ''Happy'' fresh))
              = [LayerOne, LayerTwo]"
    by blast+
  have a2: "play_for_emotion taste_world ''Happy'' fresh =
       (Inr True,
        \<lparr>calls = [Devices, TransferPlayback (PStr ''dev1''), CurrentUserTopArtists 5,
                  CurrentUserTopTracks 5,
                  Recommendations [''pop''] (Some [PStr ''ar1'']) None 40
                    [(''target_valence'', 17/20), (''target_energy'', 4/5),
                     (''target_danceability'', 3/4)],
                  StartPlayback (PStr ''dev1'') [PStr ''uri:1'', PStr ''uri:2'']],
           printed = [LayerOne, NowPlaying ''HAPPY'' 2], draws = 1\<rparr>)"
    unfolding a by (simp add: start_queue_run taste_world_def scripted_def layer_defs)
  have b2: "play_for_emotion playlist_world ''Happy'' fresh =
       (Inr True,
        \<lparr>calls = [Devices, TransferPlayback (PStr ''dev1''), CurrentUserTopArtists 5,
                  CurrentUserPlaylists, PlaylistTracks (PStr ''pl1'') 50,
                  AudioFeatures [PStr ''a'', PStr ''b''],
                  StartPlayback (PStr ''dev1'') [PStr ''uri:a'']],
           printed = [LayerOne, LayerTwo, NowPlaying ''HAPPY'' 1], draws = 0\<rparr>)"
    unfolding b by (simp add: start_queue_run playlist_world_def scripted_def layer_defs)
  from layer_short_circuit [OF search_dev dev1_truthy search_l1] search_l2
  have c': "layers_entered fresh (snd (play_for_emotion search_world ''Bored'' fresh))
              = [LayerOne, LayerTwo, LayerThree]"
    by blast
  from taste_dev dev1_truthy a' a2 b' b2 c' show ?thesis by blast
qed

section \<open>The cap on the submitted queue\<close>

text \<open>
  C4. For a non-empty queue chosen by the layers, \<open>play_for_emotion\<close> passes the first
  50 URIs of the queue, in order, to \<open>start_playback\<close> (all of them when there are fewer),
  and the line it prints after the call has returned carries the length of the whole
  queue. A queue of 120 URIs gives a call with exactly 50 URIs and the count 120.
\<close>

theorem playback_cap:
  assumes dev: "ensure_device w s = (Inr d, s1)" and td: "truthy d"
      and lq: "layered_queue w (lower e) s1 = (Inr q, s2)" and ne: "q \<noteq> []"
  shows "play_for_emotion w e s =
           (case respond w (calls s2) (StartPlayback d (take 50 q)) of
              Inr r \<Rightarrow>
                (Inr True, s2\<lparr>calls := calls s2 @ [StartPlayback d (take 50 q)],
                              printed := printed s2 @ [NowPlaying (upper (lower e)) (length q)]\<rparr>)
            | Inl x \<Rightarrow>
                (Inr False, s2\<lparr>calls := calls s2 @ [StartPlayback d (take 50 q)],
                               printed := printed s2 @ [PlaybackFailed x]\<rparr>))
         \<and> length (take 50 q) = min 50 (length q)
         \<and> (length q = 120 \<longrightarrow> length (take 50 q) = 50)"
proof -
  have "play_for_emotion w e s = start_queue w d (lower e) q s2"
    using play_with_device [OF dev td lq] ne by simp
  then show ?thesis
    by (simp add: start_queue_run min_def)
qed

theorem playback_cap_witness:
  "ensure_device crowd_world fresh =
     (Inr (PStr ''dev1''),
      \<lparr>calls = [Devices, TransferPlayback (PStr ''dev1'')], printed = [], draws = 0\<rparr>)
   \<and> truthy (PStr ''dev1'')
   \<and> length (map (\<lambda>n. PStr (''uri:'' @ label n)) [0..<120]) = 120
   \<and> play_for_emotion crowd_world ''HAPPY'' fresh =
       (Inr True,
        \<lparr>calls = [Devices, TransferPlayback (PStr ''dev1''), CurrentUserTopArtists 5,
                  CurrentUserTopTracks 5,
                  Recommendations [''pop''] None None 40
                    [(''target_valence'', 17/20), (''target_energy'', 4/5),
                     (''target_danceability'', 3/4)],
                  StartPlayback (PStr ''dev1'')
                    (map (\<lambda>n. PStr (''uri:'' @ label n)) [0..<50])],
           printed = [LayerOne, NowPlaying ''HAPPY'' 120], draws = 1\<rparr>)
   \<and> length (map (\<lambda>n. PStr (''uri:'' @ label n)) [0..<50]) = 50"
proof -
  have t: "truthy (PStr ''dev1'')" by simp
  have ne: "map (\<lambda>n. PStr (''uri:'' @ label n)) [0..<120] \<noteq> []" by simp
  have tk: "take 50 (map (\<lambda>n. PStr (''uri:'' @ label n)) [0..<120])
      = map (\<lambda>n. PStr (''uri:'' @ label n)) [0..<50]"
    by (simp add: take_map del: upt.simps upt_rec_numeral)
  have up: "upper (lower ''HAPPY'') = ''HAPPY''"
    by (simp add: layer_defs)
  from playback_cap [OF crowd_dev t crowd_queue ne]
  have "play_for_emotion crowd_world ''HAPPY'' fresh =
       (Inr True,
        \<lparr>calls = [Devices, TransferPlayback (PStr ''dev1''), CurrentUserTopArtists 5,
                  CurrentUserTopTracks 5,
                  Recommendations [''pop''] None None 40
                    [(''target_valence'', 17/20), (''target_energy'', 4/5),
                     (''target_danceability'', 3/4)],
                  StartPlayback (PStr ''dev1'')
                    (map (\<lambda>n. PStr (''uri:'' @ label n)) [0..<50])],
           printed = [LayerOne, NowPlaying ''HAPPY'' 120], draws = 1\<rparr>)"
    unfolding tk up by (simp add: crowd_world_def scripted_def del: upt.simps upt_rec_numeral)
  with crowd_dev t show ?thesis by (simp del: upt.simps upt_rec_numeral)
qed

section \<open>Failures stay inside\<close>





lemma clean_py_print: "clean w (py_print m)"
  by (auto simp add: clean_def py_print_def)











lemma lcf_printed [simp]:
  "last_call_failed w (s\<lparr>printed := p\<rparr>) = last_call_failed w s"
  by (simp add: last_call_failed_def)

lemma lcf_draws [simp]:
  "last_call_failed w (s\<lparr>draws := p\<rparr>) = last_call_failed w s"
  by (simp add: last_call_failed_def)





section \<open>Layer 3: recommendation, then search\<close>

lemma genres_nonempty: "dict_get EMOTION_GENRES e [''pop''] \<noteq> []"
  by (simp add: dict_get_def EMOTION_GENRES_def)

lemma global_attempt_run:
  assumes g: "genres = dict_get EMOTION_GENRES e [''pop'']"
      and sd: "seed = genres ! (pick w (draws s) mod length genres)"
      and rc: "rc = Recommendations [seed] None None 50 (convert_targets e)"
  shows "global_attempt w e s =
     (Inr (Some seed,
           case thenE (respond w (calls s) rc) (\<lambda>rec.
                thenE (py_get rec ''tracks'' (PList [])) (\<lambda>tracks.
                if truthy tracks then thenE (uris_of tracks) (\<lambda>us. Inr (Some us))
                else Inr None)) of
             Inr r \<Rightarrow> r
           | Inl x \<Rightarrow> None),
      s\<lparr>calls := calls s @ [rc], draws := Suc (draws s)\<rparr>)"
  using genres_nonempty [of e]
  by (simp add: global_attempt_def g sd rc run_defs split: sum.splits)

lemma global_search_run:
  "global_search w (Some seed) s =
     (Inr (case thenE (respond w (calls s) (Search (''genre:'' @ seed) ''track'' 30)) (\<lambda>result.
                thenE (py_item result ''tracks'') (\<lambda>tr.
                thenE (py_item tr ''items'') uris_of)) of
             Inr us \<Rightarrow> us
           | Inl x \<Rightarrow> []),
      s\<lparr>calls := calls s @ [Search (''genre:'' @ seed) ''track'' 30]\<rparr>)"
  by (simp add: global_search_def run_defs split: sum.splits)

text \<open>
  C7. Layer 3 first asks for recommendations with exactly one genre seed, drawn from the
  emotion's genre list, no artist and no track seed, limit 50 and the midpoint targets.
  If the answer holds tracks and their URIs can be read, these are returned and no other
  call is made. In every other case (the call failed, it gave no tracks, or a URI could
  not be read) the layer
  searches for \<open>genre:<seed>\<close> with the same seed, type \<open>track\<close>, limit 30, and
  returns the URIs found; when the search fails too, it returns the empty queue.
\<close>

theorem global_fallback:
  assumes g: "genres = dict_get EMOTION_GENRES e [''pop'']"
      and sd: "seed = genres ! (pick w (draws s) mod length genres)"
      and rc: "rc = Recommendations [seed] None None 50 (convert_targets e)"
      and sc: "sc = Search (''genre:'' @ seed) ''track'' 30"
      and s1: "s1 = s\<lparr>calls := calls s @ [rc], printed := printed s @ [LayerThree],
                       draws := Suc (draws s)\<rparr>"
      and s2: "s2 = s1\<lparr>calls := calls s @ [rc, sc]\<rparr>"
  shows
    "seed \<in> set genres
     \<and> (\<forall>rec tracks us.
          respond w (calls s) rc = Inr rec \<and> py_get rec ''tracks'' (PList []) = Inr tracks
          \<and> truthy tracks \<and> uris_of tracks = Inr us
          \<longrightarrow> layer_global_recommendations w e s = (Inr us, s1))
     \<and> (\<not> (\<exists>rec tracks us.
          respond w (calls s) rc = Inr rec \<and> py_get rec ''tracks'' (PList []) = Inr tracks
          \<and> truthy tracks \<and> uris_of tracks = Inr us)
          \<longrightarrow> layer_global_recommendations w e s =
                (Inr (case thenE (respond w (calls s @ [rc]) sc) (\<lambda>result.
                           thenE (py_item result ''tracks'') (\<lambda>tr.
                           thenE (py_item tr ''items'') uris_of)) of
                        Inr us \<Rightarrow> us
                      | Inl x \<Rightarrow> []), s2)
              \<and> ((\<exists>x. respond w (calls s @ [rc]) sc = Inl x)
                   \<longrightarrow> layer_global_recommendations w e s = (Inr [], s2)))"
proof -
  let ?t = "s\<lparr>printed := printed s @ [LayerThree]\<rparr>"
  have sd': "seed = genres ! (pick w (draws ?t) mod length genres)" using sd by simp
  note attempt = global_attempt_run [OF g sd' rc]
  have "genres \<noteq> []" using genres_nonempty g by simp
  then have c1: "seed \<in> set genres" unfolding sd by simp
  have c2: "layer_global_recommendations w e s = (Inr us, s1)"
    if a: "respond w (calls s) rc = Inr rec \<and> py_get rec ''tracks'' (PList []) = Inr tracks
          \<and> truthy tracks \<and> uris_of tracks = Inr us"
    for rec tracks us
    using a
    by (simp add: layer_global_recommendations_def bindC_def py_print_def
        attempt retC_def thenE_def s1)
  have c3: "layer_global_recommendations w e s =
                (Inr (case thenE (respond w (calls s @ [rc]) sc) (\<lambda>result.
                           thenE (py_item result ''tracks'') (\<lambda>tr.
                           thenE (py_item tr ''items'') uris_of)) of
                        Inr us \<Rightarrow> us
                      | Inl x \<Rightarrow> []), s2)
              \<and> ((\<exists>x. respond w (calls s @ [rc]) sc = Inl x)
                   \<longrightarrow> layer_global_recommendations w e s = (Inr [], s2))"
    if n: "\<not> (\<exists>rec tracks us.
          respond w (calls s) rc = Inr rec \<and> py_get rec ''tracks'' (PList []) = Inr tracks
          \<and> truthy tracks \<and> uris_of tracks = Inr us)"
  proof -
    have none: "(case thenE (respond w (calls s) rc) (\<lambda>rec.
                  thenE (py_get rec ''tracks'' (PList [])) (\<lambda>tracks.
                  if truthy tracks then thenE (uris_of tracks) (\<lambda>us. Inr (Some us))
                  else Inr None)) of
               Inr r \<Rightarrow> r
             | Inl x \<Rightarrow> None) = None"
      using n by (auto simp add: thenE_def split: sum.splits)
    have r: "layer_global_recommendations w e s =
                  (Inr (case thenE (respond w (calls s @ [rc]) sc) (\<lambda>result.
                             thenE (py_item result ''tracks'') (\<lambda>tr.
                             thenE (py_item tr ''items'') uris_of)) of
                          Inr us \<Rightarrow> us
                        | Inl x \<Rightarrow> []), s2)"
      by (simp add: layer_global_recommendations_def bindC_def py_print_def
          attempt none retC_def global_search_run s1 s2 sc)
    show ?thesis unfolding r by (auto simp add: thenE_def)
  qed
  from c1 c2 c3 show ?thesis by blast
qed

theorem global_fallback_witness:
  "layer_global_recommendations taste_world ''happy'' fresh =
     (Inr [PStr ''uri:1'', PStr ''uri:2''],
      \<lparr>calls = [Recommendations [''pop''] None None 50
                  [(''target_valence'', 17/20), (''target_energy'', 4/5),
                   (''target_danceability'', 3/4)]],
         printed = [LayerThree], draws = 1\<rparr>)
   \<and> layer_global_recommendations search_world ''sad'' fresh =
     (Inr [PStr ''uri:s1''],
      \<lparr>calls = [Recommendations [''acoustic''] None None 50
                  [(''target_valence'', 3/20), (''target_energy'', 3/20),
                   (''target_acousticness'', 7/10)],
                Search ''genre:acoustic'' ''track'' 30],
         printed = [LayerThree], draws = 1\<rparr>)
   \<and> layer_global_recommendations offline_world ''sad'' fresh =
     (Inr [],
      \<lparr>calls = [Recommendations [''acoustic''] None None 50
                  [(''target_valence'', 3/20), (''target_energy'', 3/20),
                   (''target_acousticness'', 7/10)],
                Search ''genre:acoustic'' ''track'' 30],
         printed = [LayerThree], draws = 1\<rparr>)"
proof -
  note ev = dict_get_def EMOTION_GENRES_def convert_targets_def EMOTION_TARGETS_def
    uris_of_def fresh_def track_def thenE_def pick_worlds taste_recommendations
    search_recommendations search_search offline_respond
  have a: "layer_global_recommendations taste_world ''happy'' fresh =
     (Inr [PStr ''uri:1'', PStr ''uri:2''],
      \<lparr>calls = [Recommendations [''pop''] None None 50
                  [(''target_valence'', 17/20), (''target_energy'', 4/5),
                   (''target_danceability'', 3/4)]],
         printed = [LayerThree], draws = 1\<rparr>)"
    using global_fallback [OF refl refl refl refl refl refl, where w = taste_world and e = "''happy''" and s = fresh]
    by (simp add: ev)
  have b: "layer_global_recommendations search_world ''sad'' fresh =
     (Inr [PStr ''uri:s1''],
      \<lparr>calls = [Recommendations [''acoustic''] None None 50
                  [(''target_valence'', 3/20), (''target_energy'', 3/20),
                   (''target_acousticness'', 7/10)],
                Search ''genre:acoustic'' ''track'' 30],
         printed = [LayerThree], draws = 1\<rparr>)"
    using global_fallback [OF refl refl refl refl refl refl, where w = search_world and e = "''sad''" and s = fresh]
    by (simp add: ev)
  have c: "layer_global_recommendations offline_world ''sad'' fresh =
     (Inr [],
      \<lparr>calls = [Recommendations [''acoustic''] None None 50
                  [(''target_valence'', 3/20), (''target_energy'', 3/20),
                   (''target_acousticness'', 7/10)],
                Search ''genre:acoustic'' ''track'' 30],
         printed = [LayerThree], draws = 1\<rparr>)"
    using global_fallback [OF refl refl refl refl refl refl, where w = offline_world and e = "''sad''" and s = fresh]
    by (simp add: ev)
  from a b c show ?thesis by blast
qed

section \<open>Layer 2 and the alignment of features with items\<close>

text \<open>
  Where every item of a playlist carries its track, the features line up with the items:
  the loop keeps exactly the tracks whose own measured values lie within the targets, in
  the order of the playlist.
\<close>

lemma match_loop_own_features:
  assumes "\<forall>t \<in> set tracks. snd (snd t) \<noteq> [] \<and> numeric_on (snd (snd t)) target"
  shows "match_loop target
           (zip (map (\<lambda>(i, u, kvs). PDict kvs) tracks)
                (map (\<lambda>(i, u, kvs). PDict [(''track'', PDict [(''id'', PStr i), (''uri'', PStr u)])])
                     tracks)) acc
         = Inr (acc @ map (\<lambda>(i, u, kvs). PStr u)
                        (filter (\<lambda>(i, u, kvs). within_targets kvs target) tracks))"
  using assms
proof (induction tracks arbitrary: acc)
  case Nil
  show ?case by simp
next
  case (Cons t tracks)
  obtain i u kvs where t: "t = (i, u, kvs)" by (cases t)
  from Cons.prems have ne: "kvs \<noteq> []" and num: "numeric_on kvs target"
    and rest: "\<forall>t \<in> set tracks. snd (snd t) \<noteq> [] \<and> numeric_on (snd (snd t)) target"
    by (simp_all add: t)
  show ?case
    using ne by (simp add: t match_features_dict [OF num] thenE_def Cons.IH [OF rest])
qed

text \<open>
  C2. The claim is that Layer 2 judges every track against the feature map measured for
  that same track, also in a playlist that holds an item whose track is null. The ids
  sent to the feature service leave the null items out, but the answers are zipped with
  all the items, so behind a null item each answer meets the item one place before its
  own. In \<open>null_track_world\<close> the playlist is (null, a, b); the features of \<open>a\<close> miss
  the targets of \<open>happy\<close> and those of \<open>b\<close> meet them. The features of \<open>a\<close> are
  paired with the null item and dropped, those of \<open>b\<close> are paired with \<open>a\<close>: the
  layer returns the URI of \<open>a\<close> and never looks at \<open>b\<close>.
\<close>

theorem playlist_matches_null_track:
  "layer_playlist_matches null_track_world ''happy'' fresh =
     (Inr [PStr ''uri:a''],
      \<lparr>calls = [CurrentUserPlaylists, PlaylistTracks (PStr ''pl1'') 50,
                AudioFeatures [PStr ''a'', PStr ''b'']],
         printed = [LayerTwo], draws = 0\<rparr>)
   \<and> respond null_track_world [CurrentUserPlaylists, PlaylistTracks (PStr ''pl1'') 50]
        (AudioFeatures [PStr ''a'', PStr ''b'']) =
       Inr (PList [measured (PStr ''a''), measured (PStr ''b'')])
   \<and> match_features (measured (PStr ''a'')) (dict_get EMOTION_TARGETS ''happy'' []) = Inr False
   \<and> match_features (measured (PStr ''b'')) (dict_get EMOTION_TARGETS ''happy'' []) = Inr True"
  by (simp add: layer_defs run_defs world_defs null_track_world_def measured_def)

section \<open>The dominant emotion is the first-seen mode\<close>

lemma collect_emotions_successes:
  "collect_emotions samples acc = acc @ successes samples"
  by (induction samples acc rule: collect_emotions.induct)
     (simp_all add: successes_def split: option.splits)

lemma counter_add_map:
  "distinct ks \<Longrightarrow>
   counter_add x (map (\<lambda>k. (k, f k)) ks) =
     (if x \<in> set ks then map (\<lambda>k. (k, if k = x then f k + 1 else f k)) ks
      else map (\<lambda>k. (k, f k)) ks @ [(x, 1)])"
  by (induction ks) auto

lemma firsts_snoc:
  "rev (remdups (rev (xs @ [x]))) =
     (if x \<in> set xs then rev (remdups (rev xs)) else rev (remdups (rev xs)) @ [x])"
  by simp

lemma Counter_snoc: "Counter (xs @ [x]) = counter_add x (Counter xs)"
  by (simp add: Counter_def)

lemma Counter_counts:
  "Counter xs = map (\<lambda>k. (k, count_list xs k)) (rev (remdups (rev xs)))"
proof (induction xs rule: rev_induct)
  case Nil
  show ?case by (simp add: Counter_def)
next
  case (snoc x xs)
  have d: "distinct (rev (remdups (rev xs)))" by simp
  have s: "set (rev (remdups (rev xs))) = set xs" by simp
  show ?case
    unfolding Counter_snoc snoc.IH counter_add_map [OF d] s firsts_snoc
    by (auto simp add: count_list_0_iff)
qed

lemma firsts_split:
  "rev (remdups (rev xs)) = c1 @ k # c2 \<Longrightarrow>
   \<exists>pre post. xs = pre @ k # post \<and> k \<notin> set pre \<and> set pre = set c1"
proof (induction xs arbitrary: c2 rule: rev_induct)
  case Nil
  then show ?case by simp
next
  case (snoc x xs)
  show ?case
  proof (cases "x \<in> set xs")
    case True
    with snoc.prems have "rev (remdups (rev xs)) = c1 @ k # c2" by simp
    from snoc.IH [OF this] obtain pre post where
      "xs = pre @ k # post" "k \<notin> set pre" "set pre = set c1" by blast
    then have "xs @ [x] = pre @ k # (post @ [x]) \<and> k \<notin> set pre \<and> set pre = set c1" by simp
    then show ?thesis by blast
  next
    case False
    with snoc.prems have eq: "rev (remdups (rev xs)) @ [x] = c1 @ k # c2" by simp
    show ?thesis
    proof (cases c2 rule: rev_cases)
      case Nil
      with eq have a: "rev (remdups (rev xs)) = c1" and b: "x = k" by auto
      have "set xs = set c1" using a by (metis set_remdups set_rev)
      then have "xs @ [x] = xs @ k # [] \<and> k \<notin> set xs \<and> set xs = set c1"
        using b False by simp
      then show ?thesis by blast
    next
      case (snoc c2' y)
      with eq have "rev (remdups (rev xs)) = c1 @ k # c2'" by auto
      from snoc.IH [OF this] obtain pre post where
        "xs = pre @ k # post" "k \<notin> set pre" "set pre = set c1" by blast
      then have "xs @ [x] = pre @ k # (post @ [x]) \<and> k \<notin> set pre \<and> set pre = set c1" by simp
      then show ?thesis by blast
    qed
  qed
qed

lemma max_by_count_split:
  "\<exists>pre post. best # rest = pre @ max_by_count best rest # post
     \<and> (\<forall>kv \<in> set pre. snd kv < snd (max_by_count best rest))
     \<and> (\<forall>kv \<in> set post. snd kv \<le> snd (max_by_count best rest))"
proof (induction rest arbitrary: best)
  case Nil
  have "[best] = [] @ max_by_count best [] # []" by simp
  then show ?case by (metis empty_iff list.set(1))
next
  case (Cons kv rest)
  define b where "b = (if snd best < snd kv then kv else best)"
  define m where "m = max_by_count b rest"
  have mm: "max_by_count best (kv # rest) = m" by (simp add: m_def b_def)
  from Cons.IH [of b] obtain pre post where
    eq: "b # rest = pre @ m # post"
    and lt: "\<forall>kv \<in> set pre. snd kv < snd m"
    and le: "\<forall>kv \<in> set post. snd kv \<le> snd m"
    unfolding m_def by blast
  have b_le: "snd b \<le> snd m"
  proof (cases pre)
    case Nil
    with eq show ?thesis by simp
  next
    case (Cons p pre')
    with eq have "p = b" by simp
    with lt Cons show ?thesis by (simp add: less_imp_le)
  qed
  show ?case
  proof (cases "snd best < snd kv")
    case True
    then have bk: "b = kv" by (simp add: b_def)
    have "best # kv # rest = (best # pre) @ m # post" using eq bk by simp
    moreover have "\<forall>x \<in> set (best # pre). snd x < snd m"
      using lt b_le True bk by auto
    ultimately show ?thesis unfolding mm using le by blast
  next
    case False
    then have bb: "b = best" by (simp add: b_def)
    show ?thesis
    proof (cases pre)
      case Nil
      with eq bb have mb: "m = best" and r: "rest = post" by simp_all
      have "best # kv # rest = [] @ m # (kv # post)" using mb r by simp
      moreover have "\<forall>x \<in> set (kv # post). snd x \<le> snd m"
        using le False mb by auto
      ultimately show ?thesis unfolding mm by (metis empty_iff list.set(1))
    next
      case (Cons p pre')
      with eq bb have p: "p = best" and r: "rest = pre' @ m # post" by simp_all
      have "snd best < snd m" using lt Cons p by simp
      then have "\<forall>x \<in> set (best # kv # pre'). snd x < snd m"
        using lt Cons False by auto
      moreover have "best # kv # rest = (best # kv # pre') @ m # post" using r by simp
      ultimately show ?thesis unfolding mm using le by blast
    qed
  qed
qed

lemma most_common_mode:
  assumes ne: "xs \<noteq> []"
  shows "\<exists>l pre post. most_common_1 (Counter xs) = [(l, count_list xs l)]
           \<and> xs = pre @ l # post \<and> l \<notin> set pre
           \<and> (\<forall>l' \<in> set pre. count_list xs l' < count_list xs l)
           \<and> (\<forall>l'. count_list xs l' \<le> count_list xs l)"
proof -
  define ks where "ks = rev (remdups (rev xs))"
  define g where "g = (\<lambda>k. (k, count_list xs k))"
  have c: "Counter xs = map g ks" by (simp add: Counter_counts ks_def g_def)
  have sks: "set ks = set xs" by (simp add: ks_def)
  with ne obtain k0 ks' where ks: "ks = k0 # ks'" by (cases ks) auto
  define m where "m = max_by_count (g k0) (map g ks')"
  have mc: "most_common_1 (Counter xs) = [m]"
    by (simp add: most_common_1_def c ks m_def)
  from max_by_count_split [of "g k0" "map g ks'"] obtain pre post where
    eq: "map g ks = pre @ m # post"
    and lt: "\<forall>kv \<in> set pre. snd kv < snd m"
    and le: "\<forall>kv \<in> set post. snd kv \<le> snd m"
    unfolding m_def ks by auto
  from eq obtain c1 l c2 where
    split: "ks = c1 @ l # c2" and p1: "map g c1 = pre" and ml: "g l = m" and p2: "map g c2 = post"
    by (auto simp add: map_eq_append_conv map_eq_Cons_conv)
  have cm: "snd m = count_list xs l" using ml by (auto simp add: g_def)
  have lt1: "\<forall>k \<in> set c1. count_list xs k < count_list xs l"
    using lt p1 cm by (auto simp add: g_def)
  have le2: "\<forall>k \<in> set c2. count_list xs k \<le> count_list xs l"
    using le p2 cm by (auto simp add: g_def)
  from firsts_split [of xs c1 l c2] split obtain pre' post' where
    xs: "xs = pre' @ l # post'" and nl: "l \<notin> set pre'" and sp: "set pre' = set c1"
    unfolding ks_def by blast
  have all: "count_list xs l' \<le> count_list xs l" for l'
  proof (cases "l' \<in> set xs")
    case True
    then have "l' \<in> set c1 \<or> l' = l \<or> l' \<in> set c2" using sks split by auto
    then show ?thesis using lt1 le2 by (auto simp add: less_imp_le)
  next
    case False
    then show ?thesis by (simp add: count_list_0_iff)
  qed
  have "most_common_1 (Counter xs) = [(l, count_list xs l)]"
    using mc ml by (simp add: g_def)
  moreover have "\<forall>l' \<in> set pre'. count_list xs l' < count_list xs l"
    using lt1 sp by simp
  ultimately show ?thesis using xs nl all by blast
qed

lemma length_successes: "length (successes samples) \<le> length samples"
  by (induction samples) (auto simp add: successes_def split: option.splits)

lemma count_two_others:
  "a \<noteq> b \<Longrightarrow>
   count_list xs a + count_list xs b + length (filter (\<lambda>x. x \<noteq> a \<and> x \<noteq> b) xs) = length xs"
  by (induction xs) auto

lemma detect_dominant_emotion_labels:
  "detect_dominant_emotion source =
     (let labels = successes (map source [0..<EMOTION_FRAMES])
      in if labels \<noteq> []
         then thenE (case most_common_1 (Counter labels) of
                       [] \<Rightarrow> Inl IndexError
                     | kv # _ \<Rightarrow> Inr kv) (\<lambda>kv. Inr (Some (fst kv)))
         else Inr None)"
  by (simp add: detect_dominant_emotion_def collect_emotions_successes)

text \<open>
  C6. \<open>detect_dominant_emotion\<close> looks at the labels of the successful classifications
  among the \<open>EMOTION_FRAMES\<close> sampled frames. With none it returns \<open>None\<close>, no label
  and no error. Otherwise it returns a label \<open>l\<close> that no label outnumbers, and every
  label seen before the first \<open>l\<close> occurs strictly less often than \<open>l\<close>: among the most
  frequent labels, the one seen first. With three frames \<open>happy\<close> and two \<open>sad\<close>, in
  any order, it returns \<open>happy\<close>.
\<close>

theorem dominant_emotion_mode:
  assumes lab: "labels = successes (map source [0..<EMOTION_FRAMES])"
  shows
    "(labels = [] \<longrightarrow> detect_dominant_emotion source = Inr None)
     \<and> (labels \<noteq> [] \<longrightarrow>
          (\<exists>l pre post. detect_dominant_emotion source = Inr (Some l)
             \<and> labels = pre @ l # post \<and> l \<notin> set pre
             \<and> (\<forall>l' \<in> set pre. count_list labels l' < count_list labels l)
             \<and> (\<forall>l'. count_list labels l' \<le> count_list labels l)))
     \<and> (count_list labels ''happy'' = 3 \<and> count_list labels ''sad'' = 2 \<longrightarrow>
          detect_dominant_emotion source = Inr (Some ''happy''))"
proof -
  have empty: "detect_dominant_emotion source = Inr None" if "labels = []"
    using that lab by (simp add: detect_dominant_emotion_labels)
  have mode: "\<exists>l pre post. detect_dominant_emotion source = Inr (Some l)
             \<and> labels = pre @ l # post \<and> l \<notin> set pre
             \<and> (\<forall>l' \<in> set pre. count_list labels l' < count_list labels l)
             \<and> (\<forall>l'. count_list labels l' \<le> count_list labels l)" if ne: "labels \<noteq> []"
  proof -
    from most_common_mode [OF ne] obtain l pre post where
      mc: "most_common_1 (Counter labels) = [(l, count_list labels l)]"
      and rest: "labels = pre @ l # post" "l \<notin> set pre"
        "\<forall>l' \<in> set pre. count_list labels l' < count_list labels l"
        "\<forall>l'. count_list labels l' \<le> count_list labels l"
      by blast
    have "detect_dominant_emotion source = Inr (Some l)"
      using ne mc lab by (simp add: detect_dominant_emotion_labels thenE_def Let_def)
    with rest show ?thesis by blast
  qed
  have example: "detect_dominant_emotion source = Inr (Some ''happy'')"
    if h: "count_list labels ''happy'' = 3" and s: "count_list labels ''sad'' = 2"
  proof -
    have len: "length labels \<le> 5"
      using length_successes [of "map source [0..<EMOTION_FRAMES]"] lab
      by (simp add: EMOTION_FRAMES_def)
    have "count_list labels ''happy'' + count_list labels ''sad''
            + length (filter (\<lambda>x. x \<noteq> ''happy'' \<and> x \<noteq> ''sad'') labels) = length labels"
      by (rule count_two_others) simp
    with h s len have "length (filter (\<lambda>x. x \<noteq> ''happy'' \<and> x \<noteq> ''sad'') labels) = 0"
      by linarith
    then have "filter (\<lambda>x. x \<noteq> ''happy'' \<and> x \<noteq> ''sad'') labels = []"
      by (simp only: length_0_conv)
    then have only: "\<forall>x \<in> set labels. x = ''happy'' \<or> x = ''sad''"
      by (simp add: filter_empty_conv)
    have ne: "labels \<noteq> []" using h by auto
    from mode [OF ne] obtain l pre post where
      d: "detect_dominant_emotion source = Inr (Some l)"
      and split: "labels = pre @ l # post"
      and mx: "\<forall>l'. count_list labels l' \<le> count_list labels l"
      by blast
    have "l \<in> set labels" using split by (metis in_set_conv_decomp)
    with only have "l = ''happy'' \<or> l = ''sad''" by blast
    moreover have "l \<noteq> ''sad''" using mx [rule_format, of "''happy''"] h s by auto
    ultimately show ?thesis using d by simp
  qed
  from empty mode example show ?thesis by blast
qed

lemma frames_upt: "[0..<EMOTION_FRAMES] = [0, 1, 2, 3, 4]"
  by (simp add: EMOTION_FRAMES_def upt_rec)

lemma tie_labels:
  "successes (map tie_frames [0..<EMOTION_FRAMES]) = [''sad'', ''happy'', ''happy'', ''sad'']"
  by (simp add: frames_upt tie_frames_def successes_def)

lemma majority_labels:
  "successes (map majority_frames [0..<EMOTION_FRAMES])
     = [''sad'', ''happy'', ''happy'', ''sad'', ''happy'']"
  by (simp add: frames_upt majority_frames_def successes_def)

lemma blank_labels: "successes (map blank_frames [0..<EMOTION_FRAMES]) = []"
  by (simp add: frames_upt blank_frames_def successes_def)

lemma tie_run: "detect_dominant_emotion tie_frames = Inr (Some ''sad'')"
  by (simp add: detect_dominant_emotion_labels tie_labels Counter_def most_common_1_def
      thenE_def)

theorem dominant_emotion_mode_witness:
  "successes (map blank_frames [0..<EMOTION_FRAMES]) = []
   \<and> detect_dominant_emotion blank_frames = Inr None
   \<and> successes (map majority_frames [0..<EMOTION_FRAMES])
       = [''sad'', ''happy'', ''happy'', ''sad'', ''happy'']
   \<and> detect_dominant_emotion majority_frames = Inr (Some ''happy'')
   \<and> successes (map tie_frames [0..<EMOTION_FRAMES]) = [''sad'', ''happy'', ''happy'', ''sad'']
   \<and> detect_dominant_emotion tie_frames = Inr (Some ''sad'')
   \<and> (\<exists>pre post. [''sad'', ''happy'', ''happy'', ''sad''] = pre @ ''sad'' # post
         \<and> ''sad'' \<notin> set pre)"
proof -
  from dominant_emotion_mode [OF refl, of blank_frames] blank_labels
  have a: "detect_dominant_emotion blank_frames = Inr None" by simp
  have c: "count_list (successes (map majority_frames [0..<EMOTION_FRAMES])) ''happy'' = 3"
    "count_list (successes (map majority_frames [0..<EMOTION_FRAMES])) ''sad'' = 2"
    by (simp_all add: majority_labels)
  from dominant_emotion_mode [OF refl, of majority_frames] c
  have b: "detect_dominant_emotion majority_frames = Inr (Some ''happy'')" by blast
  have ne: "successes (map tie_frames [0..<EMOTION_FRAMES]) \<noteq> []"
    by (simp add: tie_labels)
  from dominant_emotion_mode [OF refl, of tie_frames] ne
  obtain l pre post where
    "detect_dominant_emotion tie_frames = Inr (Some l)"
    "successes (map tie_frames [0..<EMOTION_FRAMES]) = pre @ l # post" "l \<notin> set pre"
    by blast
  then have t: "\<exists>pre post. [''sad'', ''happy'', ''happy'', ''sad''] = pre @ ''sad'' # post
         \<and> ''sad'' \<notin> set pre"
    using tie_run tie_labels by auto
  from a b t blank_labels majority_labels tie_labels tie_run show ?thesis by simp
qed

end
